theory Spec2Isabelle
  imports Complex_Main "HOL-Library.Multiset"
begin

section \<open>Data model (models/*.model.ts)\<close>

text \<open>
  A JavaScript \<open>Date\<close> is its time value: milliseconds since the epoch, or NaN for an
  invalid date.
\<close>

datatype jsdate = Date int | InvalidDate

text \<open>
  \<open>interface Player\<close>. The field \<open>id\<close> is named \<open>pid\<close>. The optional fields
  (\<open>teamId?\<close>, \<open>teamColor?\<close>, \<open>finishTime?\<close>) are options. Numbers that hold board
  positions and ranks are integers.
\<close>

record Player =
  pid :: string
  name :: string
  color :: string
  teamId :: "string option"
  teamColor :: "string option"
  position :: int
  isFinished :: bool
  finishTime :: "jsdate option"
  turnOrder :: int

text \<open>\<open>interface Team\<close>, with \<open>id\<close>, \<open>name\<close>, \<open>color\<close> prefixed.\<close>

record Team =
  team_id :: string
  team_name :: string
  team_color :: string

text \<open>\<open>interface SnakeOrLadder\<close>: \<open>id\<close> is \<open>sid\<close>, \<open>type\<close> is \<open>kind\<close>.\<close>

datatype hazard_kind = Snake | Ladder

record SnakeOrLadder =
  sid :: string
  kind :: hazard_kind
  startPosition :: int
  endPosition :: int

datatype MapType = Random | Fixed

text \<open>
  \<open>interface DiceConfiguration\<close>. \<open>pendingMaxPoints?: number | null\<close>: the store tests
  \<open>!== null && !== undefined\<close> and the codec reads it with \<open>?? null\<close>, so the two
  absent values are one \<open>None\<close>.
\<close>

record DiceConfiguration =
  maxPoints :: int
  pendingMaxPoints :: "int option"

record GameState =
  gameId :: string
  players :: "Player list"
  teams :: "Team list"
  snakesAndLadders :: "SnakeOrLadder list"
  mapType :: MapType
  currentDiceRollerId :: string
  selectedTargetId :: "string option"
  lastDiceResult :: "int option"
  diceConfig :: DiceConfiguration
  currentRound :: int
  turnsInCurrentRound :: int
  isGameStarted :: bool
  isGameFinished :: bool
  showTokenForPlayerId :: "string option"
  winningPositions :: "int list"
  createdAt :: jsdate
  lastUpdatedAt :: jsdate

text \<open>
  A JavaScript number handed to the dice configuration: finite values are rationals, and
  the three non-finite values are kept apart since \<open>Number.isInteger\<close> refuses them.
\<close>

datatype jsnum = Finite rat | NaN | PosInfinity | NegInfinity

text \<open>The errors thrown by the models and by \<open>GameService\<close>.\<close>

datatype error =
    NotInitialized
  | PlayerNotFound string
  | InvalidPositionError int
  | NotAtPosition100 string
  | InvalidPlayerCountError nat
  | InvalidMaxPoints jsnum
  | InvalidSnakeError int int
  | InvalidLadderError int int
  | DuplicateStartPositionError int

section \<open>game-state.model.ts\<close>

definition validatePlayerCount :: "nat \<Rightarrow> error + unit" where
  "validatePlayerCount n = (if n < 2 then Inl (InvalidPlayerCountError n) else Inr ())"

definition validatePosition :: "int \<Rightarrow> error + unit" where
  "validatePosition pos = (if pos < 0 \<or> pos > 100 then Inl (InvalidPositionError pos) else Inr ())"

text \<open>
  \<open>createInitialGameState\<close>. The identifier from \<open>uuidv4()\<close> and the clock reading
  \<open>new Date()\<close> are arguments. The three defaulted parameters are options
  (\<open>None\<close> is an omitted argument). \<open>players[0]?.id || ''\<close> is the first player's id,
  or the empty string for no player or an empty id. \<open>sort((a, b) => a - b)\<close> is the
  ascending numeric sort.
\<close>

definition createInitialGameState ::
  "string \<Rightarrow> jsdate \<Rightarrow> Player list \<Rightarrow> SnakeOrLadder list \<Rightarrow> Team list option
     \<Rightarrow> int list option \<Rightarrow> MapType option \<Rightarrow> error + GameState" where
  "createInitialGameState uuid now ps sls teamsArg winningArg mapArg =
     (case validatePlayerCount (length ps) of
        Inl e \<Rightarrow> Inl e
      | Inr _ \<Rightarrow>
          let winning = (case winningArg of None \<Rightarrow> [16] | Some w \<Rightarrow> w);
              finalWinningPositions = (if 16 \<in> set winning then winning else 16 # winning)
          in Inr \<lparr> gameId = uuid,
                   players = ps,
                   teams = (case teamsArg of None \<Rightarrow> [] | Some t \<Rightarrow> t),
                   snakesAndLadders = sls,
                   mapType = (case mapArg of None \<Rightarrow> Random | Some m \<Rightarrow> m),
                   currentDiceRollerId = (case ps of [] \<Rightarrow> '''' | p # _ \<Rightarrow> pid p),
                   selectedTargetId = None,
                   lastDiceResult = None,
                   diceConfig = \<lparr> maxPoints = 12, pendingMaxPoints = None \<rparr>,
                   currentRound = 1,
                   turnsInCurrentRound = 0,
                   isGameStarted = False,
                   isGameFinished = False,
                   showTokenForPlayerId = None,
                   winningPositions = sort finalWinningPositions,
                   createdAt = now,
                   lastUpdatedAt = now \<rparr>)"

section \<open>GameService (services/game.service.ts)\<close>

text \<open>
  The service holds one slot, \<open>stateSubject.value: GameState | null\<close>. Every operation
  takes the slot and returns what the call returned or threw together with the slot
  afterwards. An exception leaves the slot as it was, since \<open>stateSubject.next\<close> is the
  last statement of \<open>updateState\<close>.
\<close>

type_synonym store = "GameState option"

definition updateState ::
  "(GameState \<Rightarrow> error + GameState) \<Rightarrow> jsdate \<Rightarrow> store \<Rightarrow> (error + unit) \<times> store" where
  "updateState updater now st =
     (case st of
        None \<Rightarrow> (Inl NotInitialized, st)
      | Some currentState \<Rightarrow>
          (case updater currentState of
             Inl e \<Rightarrow> (Inl e, st)
           | Inr s \<Rightarrow> (Inr (), Some (s\<lparr>lastUpdatedAt := now\<rparr>))))"

text \<open>\<open>Array.prototype.findIndex\<close>: the first index that satisfies the test, or -1.\<close>

fun findIndex :: "('a \<Rightarrow> bool) \<Rightarrow> 'a list \<Rightarrow> int" where
  "findIndex P [] = -1"
| "findIndex P (x # xs) =
     (if P x then 0 else (let i = findIndex P xs in if i < 0 then -1 else i + 1))"

definition initializeGame ::
  "string \<Rightarrow> jsdate \<Rightarrow> Player list \<Rightarrow> SnakeOrLadder list \<Rightarrow> Team list option
     \<Rightarrow> int list option \<Rightarrow> MapType option \<Rightarrow> store \<Rightarrow> (error + unit) \<times> store" where
  "initializeGame uuid now ps sls teamsArg winningArg mapArg st =
     (case createInitialGameState uuid now ps sls teamsArg winningArg mapArg of
        Inl e \<Rightarrow> (Inl e, st)
      | Inr initialState \<Rightarrow> (Inr (), Some initialState))"

text \<open>
  \<open>rollDice\<close>: \<open>Math.floor(Math.random() * maxPoints) + 1\<close>, with the draw of
  \<open>Math.random()\<close> as the argument \<open>r\<close>.
\<close>

definition rollDice :: "rat \<Rightarrow> store \<Rightarrow> error + int" where
  "rollDice r st =
     (case st of
        None \<Rightarrow> Inl NotInitialized
      | Some state \<Rightarrow> Inr (\<lfloor>r * of_int (maxPoints (diceConfig state))\<rfloor> + 1))"

definition movePlayer_updater :: "string \<Rightarrow> int \<Rightarrow> GameState \<Rightarrow> error + GameState" where
  "movePlayer_updater playerId steps state =
     (let playerIndex = findIndex (\<lambda>p. pid p = playerId) (players state) in
      if playerIndex = -1 then Inl (PlayerNotFound playerId)
      else
        let player = players state ! nat playerIndex;
            newPosition = position player + steps;
            finalPosition = (if newPosition > 100 then position player else newPosition)
        in case validatePosition finalPosition of
             Inl e \<Rightarrow> Inl e
           | Inr _ \<Rightarrow>
               Inr (state\<lparr>players :=
                      (players state)[nat playerIndex := player\<lparr>position := finalPosition\<rparr>]\<rparr>))"

definition movePlayer :: "string \<Rightarrow> int \<Rightarrow> jsdate \<Rightarrow> store \<Rightarrow> (error + unit) \<times> store" where
  "movePlayer playerId steps now st = updateState (movePlayer_updater playerId steps) now st"

text \<open>
  \<open>nextTurn\<close>. \<open>sort((a, b) => a.turnOrder - b.turnOrder)\<close> is a stable sort on
  \<open>turnOrder\<close>, as \<open>sort_key\<close> is. In \<open>(currentIndex + 1) % length\<close> both operands are
  non-negative, where \<open>%\<close> and \<open>mod\<close> agree. The \<open>?? 0\<close> and \<open>?? 1\<close> on the two round
  counters do nothing on a number.
\<close>

definition nextTurn_updater :: "GameState \<Rightarrow> GameState" where
  "nextTurn_updater state =
     (let activePlayers = filter (\<lambda>p. \<not> isFinished p) (players state) in
      if length activePlayers = 0 then state
      else
        let sortedActivePlayers = sort_key turnOrder activePlayers;
            currentIndex = findIndex (\<lambda>p. pid p = currentDiceRollerId state) sortedActivePlayers;
            nextIndex = (currentIndex + 1) mod int (length sortedActivePlayers);
            nextRollerId = pid (sortedActivePlayers ! nat nextIndex);
            newTurnsInCurrentRound = turnsInCurrentRound state + 1;
            newCurrentRound = currentRound state;
            newDiceConfig = diceConfig state;
            rollover = (newTurnsInCurrentRound \<ge> int (length activePlayers))
        in state\<lparr> currentDiceRollerId := nextRollerId,
                  selectedTargetId := None,
                  lastDiceResult := None,
                  turnsInCurrentRound := (if rollover then 0 else newTurnsInCurrentRound),
                  currentRound := (if rollover then newCurrentRound + 1 else newCurrentRound),
                  diceConfig :=
                    (if rollover
                     then (case pendingMaxPoints newDiceConfig of
                             Some pending \<Rightarrow> \<lparr> maxPoints = pending, pendingMaxPoints = None \<rparr>
                           | None \<Rightarrow> newDiceConfig)
                     else newDiceConfig) \<rparr>)"

definition nextTurn :: "jsdate \<Rightarrow> store \<Rightarrow> (error + unit) \<times> store" where
  "nextTurn now st = updateState (\<lambda>state. Inr (nextTurn_updater state)) now st"

text \<open>\<open>Array.prototype.find\<close> is \<open>List.find\<close>.\<close>

definition checkWinCondition :: "string \<Rightarrow> store \<Rightarrow> bool" where
  "checkWinCondition playerId st =
     (case st of
        None \<Rightarrow> False
      | Some state \<Rightarrow>
          (case find (\<lambda>p. pid p = playerId) (players state) of
             Some player \<Rightarrow> position player = 100
           | None \<Rightarrow> False))"

text \<open>\<open>markPlayerFinished\<close> reads the clock twice: for \<open>finishTime\<close>, then in \<open>updateState\<close>.\<close>

definition markPlayerFinished_updater :: "string \<Rightarrow> jsdate \<Rightarrow> GameState \<Rightarrow> error + GameState" where
  "markPlayerFinished_updater playerId finishedAt state =
     (let playerIndex = findIndex (\<lambda>p. pid p = playerId) (players state) in
      if playerIndex = -1 then Inl (PlayerNotFound playerId)
      else
        let player = players state ! nat playerIndex in
        if position player \<noteq> 100 then Inl (NotAtPosition100 (name player))
        else Inr (state\<lparr>players :=
                    (players state)[nat playerIndex :=
                       player\<lparr>isFinished := True, finishTime := Some finishedAt\<rparr>]\<rparr>))"

definition markPlayerFinished :: "string \<Rightarrow> jsdate \<Rightarrow> jsdate \<Rightarrow> store \<Rightarrow> (error + unit) \<times> store" where
  "markPlayerFinished playerId finishedAt now st =
     updateState (markPlayerFinished_updater playerId finishedAt) now st"

definition checkGameEnd :: "store \<Rightarrow> bool" where
  "checkGameEnd st =
     (case st of
        None \<Rightarrow> False
      | Some state \<Rightarrow> if length (players state) = 0 then False else list_all isFinished (players state))"

text \<open>\<open>validateMaxPoints\<close>: \<open>Number.isInteger(maxPoints) && maxPoints >= 1\<close>.\<close>

fun validateMaxPoints :: "jsnum \<Rightarrow> bool" where
  "validateMaxPoints (Finite q) = (of_int \<lfloor>q\<rfloor> = q \<and> q \<ge> 1)"
| "validateMaxPoints _ = False"

text \<open>The integer that a number accepted by \<open>validateMaxPoints\<close> is.\<close>

fun int_of_jsnum :: "jsnum \<Rightarrow> int" where
  "int_of_jsnum (Finite q) = \<lfloor>q\<rfloor>"
| "int_of_jsnum _ = 0"

definition updateDiceConfig :: "jsnum \<Rightarrow> jsdate \<Rightarrow> store \<Rightarrow> (error + unit) \<times> store" where
  "updateDiceConfig mp now st =
     (if \<not> validateMaxPoints mp then (Inl (InvalidMaxPoints mp), st)
      else updateState
             (\<lambda>state. Inr (state\<lparr>diceConfig := (diceConfig state)\<lparr>maxPoints := int_of_jsnum mp\<rparr>\<rparr>))
             now st)"

definition updateDiceConfigPending :: "jsnum \<Rightarrow> jsdate \<Rightarrow> store \<Rightarrow> (error + unit) \<times> store" where
  "updateDiceConfigPending mp now st =
     (if \<not> validateMaxPoints mp then (Inl (InvalidMaxPoints mp), st)
      else updateState
             (\<lambda>state. Inr (state\<lparr>diceConfig :=
                              (diceConfig state)\<lparr>pendingMaxPoints := Some (int_of_jsnum mp)\<rparr>\<rparr>))
             now st)"

text \<open>Consecutive \<open>nextTurn\<close> calls, one clock reading each, stopping at the first throw.\<close>

fun nextTurn_times :: "jsdate list \<Rightarrow> store \<Rightarrow> (error + unit) \<times> store" where
  "nextTurn_times [] st = (Inr (), st)"
| "nextTurn_times (now # nows) st =
     (case nextTurn now st of
        (Inl e, st') \<Rightarrow> (Inl e, st')
      | (Inr _, st') \<Rightarrow> nextTurn_times nows st')"

definition activePlayerCount :: "GameState \<Rightarrow> nat" where
  "activePlayerCount state = length (filter (\<lambda>p. \<not> isFinished p) (players state))"

text \<open>The list \<open>sortedActivePlayers\<close> that \<open>nextTurn\<close> computes.\<close>

definition sortedActivePlayers :: "GameState \<Rightarrow> Player list" where
  "sortedActivePlayers state = sort_key turnOrder (filter (\<lambda>p. \<not> isFinished p) (players state))"

text \<open>
  The rotation in the words of the specification, to compare \<open>nextTurn\<close> with: the first
  non-finished player whose \<open>turnOrder\<close> follows the current roller's, wrapping around to
  the first non-finished player. The current roller is looked up among all players,
  finished or not.
\<close>

definition spec_nextRollerId :: "GameState \<Rightarrow> string option" where
  "spec_nextRollerId state =
     (case find (\<lambda>p. pid p = currentDiceRollerId state) (players state) of
        None \<Rightarrow> None
      | Some roller \<Rightarrow>
          (case filter (\<lambda>p. turnOrder roller < turnOrder p) (sortedActivePlayers state) of
             q # _ \<Rightarrow> Some (pid q)
           | [] \<Rightarrow> (case sortedActivePlayers state of q # _ \<Rightarrow> Some (pid q) | [] \<Rightarrow> None)))"

section \<open>snake-or-ladder.model.ts\<close>

definition validateSnake :: "int \<Rightarrow> int \<Rightarrow> error + unit" where
  "validateSnake startPos endPos =
     (if startPos \<le> endPos then Inl (InvalidSnakeError startPos endPos) else Inr ())"

definition validateLadder :: "int \<Rightarrow> int \<Rightarrow> error + unit" where
  "validateLadder startPos endPos =
     (if startPos \<ge> endPos then Inl (InvalidLadderError startPos endPos) else Inr ())"

definition checkDuplicateStartPosition :: "int \<Rightarrow> SnakeOrLadder list \<Rightarrow> error + unit" where
  "checkDuplicateStartPosition startPos existingElements =
     (if list_ex (\<lambda>element. startPosition element = startPos) existingElements
      then Inl (DuplicateStartPositionError startPos) else Inr ())"

text \<open>The factories take the fresh identifier of \<open>uuidv4()\<close> as their first argument.\<close>

definition createSnake :: "string \<Rightarrow> int \<Rightarrow> int \<Rightarrow> SnakeOrLadder list \<Rightarrow> error + SnakeOrLadder" where
  "createSnake uuid startPos endPos existingElements =
     (case validateSnake startPos endPos of
        Inl e \<Rightarrow> Inl e
      | Inr _ \<Rightarrow>
          (case checkDuplicateStartPosition startPos existingElements of
             Inl e \<Rightarrow> Inl e
           | Inr _ \<Rightarrow>
               Inr \<lparr> sid = uuid, kind = Snake, startPosition = startPos, endPosition = endPos \<rparr>))"

definition createLadder :: "string \<Rightarrow> int \<Rightarrow> int \<Rightarrow> SnakeOrLadder list \<Rightarrow> error + SnakeOrLadder" where
  "createLadder uuid startPos endPos existingElements =
     (case validateLadder startPos endPos of
        Inl e \<Rightarrow> Inl e
      | Inr _ \<Rightarrow>
          (case checkDuplicateStartPosition startPos existingElements of
             Inl e \<Rightarrow> Inl e
           | Inr _ \<Rightarrow>
               Inr \<lparr> sid = uuid, kind = Ladder, startPosition = startPos, endPosition = endPos \<rparr>))"

section \<open>Hazard generator (utils/board-layout.util.ts)\<close>

text \<open>
  \<open>getRandomInt(min, max)\<close> is \<open>Math.floor(Math.random() * (max - min + 1)) + min\<close>;
  its first argument here is the value that \<open>Math.random()\<close> returned.
\<close>

definition getRandomInt :: "rat \<Rightarrow> int \<Rightarrow> int \<Rightarrow> int" where
  "getRandomInt r lo hi = \<lfloor>r * of_int (hi - lo + 1)\<rfloor> + lo"

text \<open>\<open>interface SnakesAndLaddersConfig\<close>: three optional numbers.\<close>

record SnakesAndLaddersConfig =
  count_opt :: "int option"
  minDistance_opt :: "int option"
  maxDistance_opt :: "int option"

text \<open>
  The local state of \<open>generateSnakesAndLadders\<close>: the two collections it fills, and how
  many values of \<open>Math.random()\<close> it has consumed. The random source \<open>rnd\<close> gives the
  k-th value of \<open>Math.random()\<close>, and \<open>uuids\<close> the k-th identifier.
\<close>

record generation =
  elements :: "SnakeOrLadder list"
  usedEndPositions :: "int set"
  draws :: nat

definition MIN_POSITION :: int where "MIN_POSITION = 2"
definition MAX_POSITION :: int where "MAX_POSITION = 99"

text \<open>
  The \<open>while (attempts < maxAttempts)\<close> loop for one snake; the first numeric argument is
  \<open>maxAttempts - attempts\<close>. \<open>continue\<close> is the recursive call, \<open>break\<close> the return.
\<close>

fun snakeAttempts ::
  "(nat \<Rightarrow> rat) \<Rightarrow> (nat \<Rightarrow> string) \<Rightarrow> int \<Rightarrow> int \<Rightarrow> nat \<Rightarrow> generation \<Rightarrow> generation" where
  "snakeAttempts rnd uuids minDistance maxDistance 0 g = g"
| "snakeAttempts rnd uuids minDistance maxDistance (Suc remaining) g =
     (let head = getRandomInt (rnd (draws g)) (MIN_POSITION + minDistance) MAX_POSITION;
          g1 = g\<lparr>draws := draws g + 1\<rparr>
      in if head \<in> usedEndPositions g1
         then snakeAttempts rnd uuids minDistance maxDistance remaining g1
         else
           let distance = getRandomInt (rnd (draws g1)) minDistance
                            (min maxDistance (head - MIN_POSITION));
               g2 = g1\<lparr>draws := draws g1 + 1\<rparr>;
               tail = head - distance
           in if tail < MIN_POSITION \<or> tail \<in> usedEndPositions g2
              then snakeAttempts rnd uuids minDistance maxDistance remaining g2
              else
                (case createSnake (uuids (length (elements g2))) head tail (elements g2) of
                   Inl _ \<Rightarrow> snakeAttempts rnd uuids minDistance maxDistance remaining g2
                 | Inr snake \<Rightarrow>
                     g2\<lparr>elements := elements g2 @ [snake],
                        usedEndPositions := insert tail (usedEndPositions g2)\<rparr>))"

fun ladderAttempts ::
  "(nat \<Rightarrow> rat) \<Rightarrow> (nat \<Rightarrow> string) \<Rightarrow> int \<Rightarrow> int \<Rightarrow> nat \<Rightarrow> generation \<Rightarrow> generation" where
  "ladderAttempts rnd uuids minDistance maxDistance 0 g = g"
| "ladderAttempts rnd uuids minDistance maxDistance (Suc remaining) g =
     (let bottom = getRandomInt (rnd (draws g)) MIN_POSITION (MAX_POSITION - minDistance);
          g1 = g\<lparr>draws := draws g + 1\<rparr>
      in if bottom \<in> usedEndPositions g1
         then ladderAttempts rnd uuids minDistance maxDistance remaining g1
         else
           let distance = getRandomInt (rnd (draws g1)) minDistance
                            (min maxDistance (MAX_POSITION - bottom));
               g2 = g1\<lparr>draws := draws g1 + 1\<rparr>;
               top = bottom + distance
           in if top > MAX_POSITION \<or> top \<in> usedEndPositions g2
              then ladderAttempts rnd uuids minDistance maxDistance remaining g2
              else
                (case createLadder (uuids (length (elements g2))) bottom top (elements g2) of
                   Inl _ \<Rightarrow> ladderAttempts rnd uuids minDistance maxDistance remaining g2
                 | Inr ladder \<Rightarrow>
                     g2\<lparr>elements := elements g2 @ [ladder],
                        usedEndPositions := insert top (usedEndPositions g2)\<rparr>))"

text \<open>
  \<open>generateSnakesAndLadders\<close>: the two \<open>for\<close> loops run their bodies \<open>numSnakes\<close> and
  \<open>numLadders\<close> times (not at all for a negative bound), each body with 100 attempts.
  \<open>Math.floor(count / 2)\<close> is \<open>count div 2\<close>.
\<close>

definition generateSnakesAndLadders ::
  "(nat \<Rightarrow> rat) \<Rightarrow> (nat \<Rightarrow> string) \<Rightarrow> SnakesAndLaddersConfig \<Rightarrow> SnakeOrLadder list" where
  "generateSnakesAndLadders rnd uuids config =
     (let n = (case count_opt config of None \<Rightarrow> 14 | Some c \<Rightarrow> c);
          minDistance = (case minDistance_opt config of None \<Rightarrow> 10 | Some d \<Rightarrow> d);
          maxDistance = (case maxDistance_opt config of None \<Rightarrow> 40 | Some d \<Rightarrow> d);
          numSnakes = n div 2;
          numLadders = n - numSnakes;
          g0 = \<lparr> elements = [], usedEndPositions = {}, draws = 0 \<rparr>;
          g1 = ((snakeAttempts rnd uuids minDistance maxDistance 100) ^^ nat numSnakes) g0;
          g2 = ((ladderAttempts rnd uuids minDistance maxDistance 100) ^^ nat numLadders) g1
      in elements g2)"

text \<open>
  What the documentation of \<open>generateSnakesAndLadders\<close> says the result ensures: no two
  elements share a start position, snakes go down and ladders up, and no element starts
  or ends at position 1 or 100 (all positions lie in 2..99).
\<close>

definition directed :: "SnakeOrLadder \<Rightarrow> bool" where
  "directed e = (case kind e of Snake \<Rightarrow> startPosition e > endPosition e
                              | Ladder \<Rightarrow> startPosition e < endPosition e)"

definition inside :: "SnakeOrLadder \<Rightarrow> bool" where
  "inside e = (2 \<le> startPosition e \<and> startPosition e \<le> 99 \<and> 2 \<le> endPosition e \<and> endPosition e \<le> 99)"

definition validHazards :: "SnakeOrLadder list \<Rightarrow> bool" where
  "validHazards es = (distinct (map startPosition es) \<and> list_all directed es \<and> list_all inside es)"

section \<open>Persistence codec (services/storage.service.ts)\<close>

text \<open>
  The codec works on untyped data (\<open>any\<close>). A value is one of JavaScript's: an object is
  the function from property names to values, \<open>Undefined\<close> where it has no such
  property, so two objects are equal when they agree field by field.
\<close>

datatype jsval =
    Undefined
  | Null
  | Bool bool
  | Num rat
  | Str string
  | Arr "jsval list"
  | Obj "string \<Rightarrow> jsval"
  | DateV jsdate

text \<open>
  What the codec throws: a built-in error, \<open>CorruptedStateError(reason)\<close> with one of the
  reasons written in \<open>validateState\<close>, or \<open>CorruptedStateError(error.message)\<close> made from
  a caught built-in error.
\<close>

datatype js_error = TypeError | RangeError | SyntaxError

datatype codec_error =
    Thrown js_error
  | CorruptedStateError string
  | CorruptedStateErrorFrom js_error

text \<open>An object literal \<open>{k1: v1, ...}\<close>; an earlier entry wins, and the keys are distinct.\<close>

definition obj :: "(string \<times> jsval) list \<Rightarrow> jsval" where
  "obj kvs = Obj (\<lambda>k. case map_of kvs k of Some v \<Rightarrow> v | None \<Rightarrow> Undefined)"

text \<open>The layout of the typed records as objects, field for field as the interfaces name them.\<close>

definition js_of_string_opt :: "string option \<Rightarrow> jsval" where
  "js_of_string_opt v = (case v of None \<Rightarrow> Undefined | Some t \<Rightarrow> Str t)"

definition js_of_string_null :: "string option \<Rightarrow> jsval" where
  "js_of_string_null v = (case v of None \<Rightarrow> Null | Some t \<Rightarrow> Str t)"

definition js_of_int_null :: "int option \<Rightarrow> jsval" where
  "js_of_int_null v = (case v of None \<Rightarrow> Null | Some n \<Rightarrow> Num (of_int n))"

definition js_of_Player :: "Player \<Rightarrow> jsval" where
  "js_of_Player p =
     obj [(''id'', Str (pid p)),
          (''name'', Str (name p)),
          (''color'', Str (color p)),
          (''teamId'', js_of_string_opt (teamId p)),
          (''teamColor'', js_of_string_opt (teamColor p)),
          (''position'', Num (of_int (position p))),
          (''isFinished'', Bool (isFinished p)),
          (''finishTime'', (case finishTime p of None \<Rightarrow> Undefined | Some d \<Rightarrow> DateV d)),
          (''turnOrder'', Num (of_int (turnOrder p)))]"

definition js_of_Team :: "Team \<Rightarrow> jsval" where
  "js_of_Team t =
     obj [(''id'', Str (team_id t)), (''name'', Str (team_name t)), (''color'', Str (team_color t))]"

definition js_of_SnakeOrLadder :: "SnakeOrLadder \<Rightarrow> jsval" where
  "js_of_SnakeOrLadder e =
     obj [(''id'', Str (sid e)),
          (''type'', Str (case kind e of Snake \<Rightarrow> ''snake'' | Ladder \<Rightarrow> ''ladder'')),
          (''startPosition'', Num (of_int (startPosition e))),
          (''endPosition'', Num (of_int (endPosition e)))]"

definition js_of_DiceConfiguration :: "DiceConfiguration \<Rightarrow> jsval" where
  "js_of_DiceConfiguration c =
     obj [(''maxPoints'', Num (of_int (maxPoints c))),
          (''pendingMaxPoints'', js_of_int_null (pendingMaxPoints c))]"

definition js_of_GameState :: "GameState \<Rightarrow> jsval" where
  "js_of_GameState s =
     obj [(''gameId'', Str (gameId s)),
          (''players'', Arr (map js_of_Player (players s))),
          (''teams'', Arr (map js_of_Team (teams s))),
          (''snakesAndLadders'', Arr (map js_of_SnakeOrLadder (snakesAndLadders s))),
          (''mapType'', Str (case mapType s of Random \<Rightarrow> ''random'' | Fixed \<Rightarrow> ''fixed'')),
          (''currentDiceRollerId'', Str (currentDiceRollerId s)),
          (''selectedTargetId'', js_of_string_null (selectedTargetId s)),
          (''lastDiceResult'', js_of_int_null (lastDiceResult s)),
          (''diceConfig'', js_of_DiceConfiguration (diceConfig s)),
          (''currentRound'', Num (of_int (currentRound s))),
          (''turnsInCurrentRound'', Num (of_int (turnsInCurrentRound s))),
          (''isGameStarted'', Bool (isGameStarted s)),
          (''isGameFinished'', Bool (isGameFinished s)),
          (''showTokenForPlayerId'', js_of_string_null (showTokenForPlayerId s)),
          (''winningPositions'', Arr (map (\<lambda>n. Num (of_int n)) (winningPositions s))),
          (''createdAt'', DateV (createdAt s)),
          (''lastUpdatedAt'', DateV (lastUpdatedAt s))]"

subsection \<open>The JavaScript operations the codec uses\<close>

definition nullish :: "jsval \<Rightarrow> bool" where
  "nullish v = (v = Undefined \<or> v = Null)"

text \<open>
  \<open>v.k\<close> for the property names the codec reads (none is an index, \<open>length\<close> or a
  method): a TypeError on \<open>undefined\<close> and \<open>null\<close>, the field of an object, and
  \<open>undefined\<close> on every other value.
\<close>

definition getProp :: "jsval \<Rightarrow> string \<Rightarrow> codec_error + jsval" where
  "getProp v k =
     (case v of
        Undefined \<Rightarrow> Inl (Thrown TypeError)
      | Null \<Rightarrow> Inl (Thrown TypeError)
      | Obj f \<Rightarrow> Inr (f k)
      | _ \<Rightarrow> Inr Undefined)"

text \<open>\<open>v?.k\<close>.\<close>

definition optProp :: "jsval \<Rightarrow> string \<Rightarrow> jsval" where
  "optProp v k = (case v of Obj f \<Rightarrow> f k | _ \<Rightarrow> Undefined)"

text \<open>\<open>a ?? b\<close>.\<close>

definition orDefault :: "jsval \<Rightarrow> jsval \<Rightarrow> jsval" where
  "orDefault a b = (if nullish a then b else a)"

text \<open>Truthiness. NaN is no value of \<open>Num\<close>.\<close>

fun truthy :: "jsval \<Rightarrow> bool" where
  "truthy Undefined = False"
| "truthy Null = False"
| "truthy (Bool b) = b"
| "truthy (Num q) = (q \<noteq> 0)"
| "truthy (Str s) = (s \<noteq> [])"
| "truthy (Arr xs) = True"
| "truthy (Obj f) = True"
| "truthy (DateV d) = True"

text \<open>The decimal numeral of an index, as a property name.\<close>

fun decimal :: "nat \<Rightarrow> string" where
  "decimal n =
     (if n < 10 then [char_of (48 + n)] else decimal (n div 10) @ [char_of (48 + n mod 10)])"

text \<open>
  The own enumerable properties that \<open>{...v}\<close> copies: the fields of an object, the
  elements of an array and the characters of a string under their indices, none of a
  primitive or a \<open>Date\<close>.
\<close>

definition spreadProps :: "jsval \<Rightarrow> string \<Rightarrow> jsval" where
  "spreadProps v =
     (case v of
        Obj f \<Rightarrow> f
      | Arr xs \<Rightarrow>
          (\<lambda>k. case find (\<lambda>i. decimal i = k) [0..<length xs] of
                  Some i \<Rightarrow> xs ! i | None \<Rightarrow> Undefined)
      | Str cs \<Rightarrow>
          (\<lambda>k. case find (\<lambda>i. decimal i = k) [0..<length cs] of
                  Some i \<Rightarrow> Str [cs ! i] | None \<Rightarrow> Undefined)
      | _ \<Rightarrow> (\<lambda>k. Undefined))"

text \<open>
  \<open>d.toISOString()\<close>: the argument \<open>toISO\<close> is the runtime's formatter of a time value; an
  invalid date throws a RangeError, and a value that is no \<open>Date\<close> has no such method.
\<close>

definition toISOString :: "(int \<Rightarrow> string) \<Rightarrow> jsval \<Rightarrow> codec_error + jsval" where
  "toISOString toISO v =
     (case v of
        DateV (Date t) \<Rightarrow> Inr (Str (toISO t))
      | DateV InvalidDate \<Rightarrow> Inl (Thrown RangeError)
      | _ \<Rightarrow> Inl (Thrown TypeError))"

text \<open>\<open>xs.map(f)\<close> with a callback that may throw, on a value that may be no array.\<close>

fun mapE :: "('a \<Rightarrow> 'e + 'b) \<Rightarrow> 'a list \<Rightarrow> 'e + 'b list" where
  "mapE f [] = Inr []"
| "mapE f (x # xs) =
     (case f x of
        Inl e \<Rightarrow> Inl e
      | Inr y \<Rightarrow> (case mapE f xs of Inl e \<Rightarrow> Inl e | Inr ys \<Rightarrow> Inr (y # ys)))"

definition mapArray :: "(jsval \<Rightarrow> codec_error + jsval) \<Rightarrow> jsval \<Rightarrow> codec_error + jsval" where
  "mapArray f v =
     (case v of
        Arr xs \<Rightarrow> (case mapE f xs of Inl e \<Rightarrow> Inl e | Inr ys \<Rightarrow> Inr (Arr ys))
      | _ \<Rightarrow> Inl (Thrown TypeError))"

subsection \<open>serializeState, deserializeState, validateState\<close>

text \<open>The callback of \<open>state.players.map\<close> in \<open>serializeState\<close>.\<close>

definition serializePlayer :: "(int \<Rightarrow> string) \<Rightarrow> jsval \<Rightarrow> codec_error + jsval" where
  "serializePlayer toISO player =
     (case getProp player ''finishTime'' of
        Inl e \<Rightarrow> Inl e
      | Inr ft \<Rightarrow>
          (case (if truthy ft then toISOString toISO ft else Inr Undefined) of
             Inl e \<Rightarrow> Inl e
           | Inr v \<Rightarrow> Inr (Obj ((spreadProps player)(''finishTime'' := v)))))"

definition serializeState :: "(int \<Rightarrow> string) \<Rightarrow> jsval \<Rightarrow> codec_error + jsval" where
  "serializeState toISO state =
     (case getProp state ''createdAt'' of
        Inl e \<Rightarrow> Inl e
      | Inr c \<Rightarrow>
     (case toISOString toISO c of
        Inl e \<Rightarrow> Inl e
      | Inr createdAtStr \<Rightarrow>
     (case getProp state ''lastUpdatedAt'' of
        Inl e \<Rightarrow> Inl e
      | Inr u \<Rightarrow>
     (case toISOString toISO u of
        Inl e \<Rightarrow> Inl e
      | Inr lastUpdatedAtStr \<Rightarrow>
     (case getProp state ''players'' of
        Inl e \<Rightarrow> Inl e
      | Inr ps \<Rightarrow>
     (case mapArray (serializePlayer toISO) ps of
        Inl e \<Rightarrow> Inl e
      | Inr players' \<Rightarrow>
          Inr (Obj ((spreadProps state)
                 (''createdAt'' := createdAtStr,
                  ''lastUpdatedAt'' := lastUpdatedAtStr,
                  ''players'' := players')))))))))"

text \<open>
  The callback of \<open>data.players.map\<close> in \<open>deserializeState\<close>. The argument \<open>newDate\<close>
  is the runtime's \<open>new Date(value)\<close>.
\<close>

definition deserializePlayer :: "(jsval \<Rightarrow> jsdate) \<Rightarrow> jsval \<Rightarrow> codec_error + jsval" where
  "deserializePlayer newDate player =
     (case getProp player ''teamId'' of
        Inl e \<Rightarrow> Inl e
      | Inr tid \<Rightarrow>
     (case getProp player ''teamColor'' of
        Inl e \<Rightarrow> Inl e
      | Inr tcolor \<Rightarrow>
     (case getProp player ''finishTime'' of
        Inl e \<Rightarrow> Inl e
      | Inr ft \<Rightarrow>
          Inr (Obj ((spreadProps player)
                 (''teamId'' := orDefault tid Undefined,
                  ''teamColor'' := orDefault tcolor Undefined,
                  ''finishTime'' := (if truthy ft then DateV (newDate ft) else Undefined)))))))"

definition deserializeState :: "(jsval \<Rightarrow> jsdate) \<Rightarrow> jsval \<Rightarrow> codec_error + jsval" where
  "deserializeState newDate data =
     (case getProp data ''createdAt'' of
        Inl e \<Rightarrow> Inl e
      | Inr c \<Rightarrow>
     (case getProp data ''lastUpdatedAt'' of
        Inl e \<Rightarrow> Inl e
      | Inr u \<Rightarrow>
     (case getProp data ''currentRound'' of
        Inl e \<Rightarrow> Inl e
      | Inr cr \<Rightarrow>
     (case getProp data ''turnsInCurrentRound'' of
        Inl e \<Rightarrow> Inl e
      | Inr tr \<Rightarrow>
     (case getProp data ''teams'' of
        Inl e \<Rightarrow> Inl e
      | Inr ts \<Rightarrow>
     (case getProp data ''diceConfig'' of
        Inl e \<Rightarrow> Inl e
      | Inr dc \<Rightarrow>
     (case getProp data ''players'' of
        Inl e \<Rightarrow> Inl e
      | Inr ps \<Rightarrow>
     (case mapArray (deserializePlayer newDate) ps of
        Inl e \<Rightarrow> Inl e
      | Inr players' \<Rightarrow>
          Inr (Obj ((spreadProps data)
                 (''createdAt'' := DateV (newDate c),
                  ''lastUpdatedAt'' := DateV (newDate u),
                  ''currentRound'' := orDefault cr (Num 1),
                  ''turnsInCurrentRound'' := orDefault tr (Num 0),
                  ''teams'' := orDefault ts (Arr []),
                  ''diceConfig'' :=
                     obj [(''maxPoints'', orDefault (optProp dc ''maxPoints'') (Num 12)),
                          (''pendingMaxPoints'', orDefault (optProp dc ''pendingMaxPoints'') Null)],
                  ''players'' := players')))))))))))"

text \<open>The test of one player in the loop of \<open>validateState\<close>.\<close>

definition validatePlayerData :: "jsval \<Rightarrow> codec_error + unit" where
  "validatePlayerData player =
     (case getProp player ''id'' of
        Inl e \<Rightarrow> Inl e
      | Inr i \<Rightarrow>
          if \<not> truthy i then Inl (CorruptedStateError ''Invalid player data'')
          else
     (case getProp player ''name'' of
        Inl e \<Rightarrow> Inl e
      | Inr n \<Rightarrow>
          if \<not> truthy n then Inl (CorruptedStateError ''Invalid player data'')
          else
     (case getProp player ''position'' of
        Inl e \<Rightarrow> Inl e
      | Inr pos \<Rightarrow>
          (case pos of
             Num _ \<Rightarrow> Inr ()
           | _ \<Rightarrow> Inl (CorruptedStateError ''Invalid player data'')))))"

fun validatePlayers :: "jsval list \<Rightarrow> codec_error + unit" where
  "validatePlayers [] = Inr ()"
| "validatePlayers (player # rest) =
     (case validatePlayerData player of Inl e \<Rightarrow> Inl e | Inr _ \<Rightarrow> validatePlayers rest)"

definition isValidDate :: "jsval \<Rightarrow> bool" where
  "isValidDate v = (case v of DateV (Date _) \<Rightarrow> True | _ \<Rightarrow> False)"

definition validateState :: "jsval \<Rightarrow> codec_error + unit" where
  "validateState state =
     (case getProp state ''gameId'' of
        Inl e \<Rightarrow> Inl e
      | Inr gid \<Rightarrow>
          if \<not> truthy gid \<or> (case gid of Str _ \<Rightarrow> False | _ \<Rightarrow> True)
          then Inl (CorruptedStateError ''Missing or invalid gameId'')
          else
     (case getProp state ''players'' of
        Inl e \<Rightarrow> Inl e
      | Inr ps \<Rightarrow>
          if (case ps of Arr _ \<Rightarrow> False | _ \<Rightarrow> True)
          then Inl (CorruptedStateError ''Missing or invalid players array'')
          else
     (case getProp state ''snakesAndLadders'' of
        Inl e \<Rightarrow> Inl e
      | Inr sl \<Rightarrow>
          if (case sl of Arr _ \<Rightarrow> False | _ \<Rightarrow> True)
          then Inl (CorruptedStateError ''Missing or invalid snakesAndLadders array'')
          else
     (case getProp state ''isGameStarted'' of
        Inl e \<Rightarrow> Inl e
      | Inr started \<Rightarrow>
          if (case started of Bool _ \<Rightarrow> False | _ \<Rightarrow> True)
          then Inl (CorruptedStateError ''Missing or invalid isGameStarted'')
          else
     (case getProp state ''isGameFinished'' of
        Inl e \<Rightarrow> Inl e
      | Inr finished \<Rightarrow>
          if (case finished of Bool _ \<Rightarrow> False | _ \<Rightarrow> True)
          then Inl (CorruptedStateError ''Missing or invalid isGameFinished'')
          else
     (case getProp state ''createdAt'' of
        Inl e \<Rightarrow> Inl e
      | Inr c \<Rightarrow>
          if \<not> isValidDate c then Inl (CorruptedStateError ''Invalid createdAt date'')
          else
     (case getProp state ''lastUpdatedAt'' of
        Inl e \<Rightarrow> Inl e
      | Inr u \<Rightarrow>
          if \<not> isValidDate u then Inl (CorruptedStateError ''Invalid lastUpdatedAt date'')
          else (case ps of Arr xs \<Rightarrow> validatePlayers xs | _ \<Rightarrow> Inr ()))))))))"

subsection \<open>loadGameState and clearGameState\<close>

text \<open>The two keys of \<open>localStorage\<close> that the service uses; \<open>None\<close> is an absent key.\<close>

record storage =
  dl_game_state :: "string option"
  dl_game_version :: "string option"

definition clearGameState :: "bool \<Rightarrow> storage \<Rightarrow> storage" where
  "clearGameState isStorageAvailable ls =
     (if \<not> isStorageAvailable then ls
      else ls\<lparr>dl_game_state := None, dl_game_version := None\<rparr>)"

text \<open>
  \<open>loadGameState\<close> returns what the call returned (\<open>None\<close> is \<open>null\<close>) or threw, and the
  storage afterwards. \<open>parseJSON\<close> is the runtime's \<open>JSON.parse\<close>, \<open>None\<close> for a
  SyntaxError. The version check only logs.
\<close>

definition loadGameState ::
  "(string \<Rightarrow> jsval option) \<Rightarrow> (jsval \<Rightarrow> jsdate) \<Rightarrow> bool \<Rightarrow> storage
     \<Rightarrow> (codec_error + jsval option) \<times> storage" where
  "loadGameState parseJSON newDate isStorageAvailable ls =
     (if \<not> isStorageAvailable then (Inr None, ls)
      else
        (case dl_game_state ls of
           None \<Rightarrow> (Inr None, ls)
         | Some savedState \<Rightarrow>
             if savedState = [] then (Inr None, ls)
             else
               let attempt =
                     (case parseJSON savedState of
                        None \<Rightarrow> Inl (Thrown SyntaxError)
                      | Some parsedState \<Rightarrow>
                          (case deserializeState newDate parsedState of
                             Inl e \<Rightarrow> Inl e
                           | Inr deserializedState \<Rightarrow>
                               (case validateState deserializedState of
                                  Inl e \<Rightarrow> Inl e
                                | Inr _ \<Rightarrow> Inr deserializedState)))
               in (case attempt of
                     Inr deserializedState \<Rightarrow> (Inr (Some deserializedState), ls)
                   | Inl (CorruptedStateError reason) \<Rightarrow> (Inl (CorruptedStateError reason), ls)
                   | Inl (CorruptedStateErrorFrom e) \<Rightarrow> (Inl (CorruptedStateErrorFrom e), ls)
                   | Inl (Thrown e) \<Rightarrow>
                       (Inl (CorruptedStateErrorFrom e), clearGameState isStorageAvailable ls))))"

subsection \<open>Valid states and the runtime's date formatting\<close>

text \<open>
  A state is serializable when none of its dates is invalid (\<open>toISOString\<close> throws on an
  invalid date). \<open>stateDates\<close> lists the dates of a state. A date round-trips when the
  runtime parses the text it formats the date to back to the same time value, and that
  text is not empty.
\<close>

definition validDates :: "GameState \<Rightarrow> bool" where
  "validDates s =
     (createdAt s \<noteq> InvalidDate \<and> lastUpdatedAt s \<noteq> InvalidDate
      \<and> (\<forall>p\<in>set (players s). finishTime p \<noteq> Some InvalidDate))"

definition stateDates :: "GameState \<Rightarrow> jsdate list" where
  "stateDates s =
     createdAt s # lastUpdatedAt s #
       concat (map (\<lambda>p. case finishTime p of None \<Rightarrow> [] | Some d \<Rightarrow> [d]) (players s))"

definition roundTrips :: "(int \<Rightarrow> string) \<Rightarrow> (jsval \<Rightarrow> jsdate) \<Rightarrow> jsdate \<Rightarrow> bool" where
  "roundTrips toISO newDate d =
     (case d of
        Date t \<Rightarrow> newDate (Str (toISO t)) = Date t \<and> toISO t \<noteq> []
      | InvalidDate \<Rightarrow> True)"

section \<open>Example data\<close>

definition playerAn :: Player where
  "playerAn = \<lparr> pid = ''p1'', name = ''An'', color = ''hsl(0, 70%, 50%)'', teamId = None,
       teamColor = None, position = 0, isFinished = False, finishTime = None, turnOrder = 0 \<rparr>"

definition playerBinh :: Player where
  "playerBinh = \<lparr> pid = ''p2'', name = ''Binh'', color = ''hsl(120, 70%, 50%)'', teamId = None,
       teamColor = None, position = 94, isFinished = False, finishTime = None, turnOrder = 1 \<rparr>"

definition playerChi :: Player where
  "playerChi = \<lparr> pid = ''p3'', name = ''Chi'', color = ''hsl(240, 70%, 50%)'', teamId = None,
       teamColor = None, position = 0, isFinished = False, finishTime = None, turnOrder = 2 \<rparr>"

text \<open>Three players in mid-round: it is Binh's turn, one turn of the round is done.\<close>

definition exampleState :: GameState where
  "exampleState =
     \<lparr> gameId = ''g-1'',
       players = [playerAn, playerBinh, playerChi],
       teams = [],
       snakesAndLadders = [],
       mapType = Random,
       currentDiceRollerId = ''p2'',
       selectedTargetId = Some ''p2'',
       lastDiceResult = Some 6,
       diceConfig = \<lparr> maxPoints = 12, pendingMaxPoints = Some 6 \<rparr>,
       currentRound = 1,
       turnsInCurrentRound = 1,
       isGameStarted = True,
       isGameFinished = False,
       showTokenForPlayerId = None,
       winningPositions = [16],
       createdAt = Date 0,
       lastUpdatedAt = Date 1000 \<rparr>"

text \<open>The same players at the start of a round, An to roll.\<close>

definition roundStartState :: GameState where
  "roundStartState = exampleState\<lparr>currentDiceRollerId := ''p1'', turnsInCurrentRound := 0\<rparr>"

text \<open>Binh has moved by 6 onto 100, and has then been marked finished.\<close>

definition binhAt100State :: GameState where
  "binhAt100State =
     exampleState\<lparr>players := [playerAn, playerBinh\<lparr>position := 100\<rparr>, playerChi],
                  lastUpdatedAt := Date 2000\<rparr>"

definition binhFinishedState :: GameState where
  "binhFinishedState =
     exampleState\<lparr>players :=
                    [playerAn,
                     playerBinh\<lparr>position := 100, isFinished := True, finishTime := Some (Date 1000)\<rparr>,
                     playerChi],
                  lastUpdatedAt := Date 3000\<rparr>"

definition allFinishedState :: GameState where
  "allFinishedState =
     exampleState\<lparr>players :=
                    [playerAn\<lparr>position := 100, isFinished := True, finishTime := Some (Date 0)\<rparr>,
                     playerBinh\<lparr>position := 100, isFinished := True, finishTime := Some (Date 1000)\<rparr>]\<rparr>"

text \<open>
  A formatter and a \<open>Date\<close> constructor that know the time values 0, 1000 and 3000.
\<close>

definition exampleToISO :: "int \<Rightarrow> string" where
  "exampleToISO t =
     (if t = 0 then ''1970-01-01T00:00:00.000Z''
      else if t = 1000 then ''1970-01-01T00:00:01.000Z''
      else ''1970-01-01T00:00:03.000Z'')"

definition exampleNewDate :: "jsval \<Rightarrow> jsdate" where
  "exampleNewDate v =
     (if v = Str ''1970-01-01T00:00:00.000Z'' then Date 0
      else if v = Str ''1970-01-01T00:00:01.000Z'' then Date 1000
      else if v = Str ''1970-01-01T00:00:03.000Z'' then Date 3000
      else InvalidDate)"

text \<open>
  Two stored records and what \<open>JSON.parse\<close> makes of them: one that has every field
  \<open>validateState\<close> asks for except \<open>gameId\<close>, and one without a \<open>players\<close> array.
\<close>

definition storedWithoutGameId :: string where
  \<open>storedWithoutGameId =
     ''{"players":[],"snakesAndLadders":[],"isGameStarted":false,"isGameFinished":false,"createdAt":"2024-01-01T00:00:00.000Z","lastUpdatedAt":"2024-01-01T00:00:00.000Z"}''\<close>

definition parsedWithoutGameId :: jsval where
  "parsedWithoutGameId =
     obj [(''players'', Arr []),
          (''snakesAndLadders'', Arr []),
          (''isGameStarted'', Bool False),
          (''isGameFinished'', Bool False),
          (''createdAt'', Str ''2024-01-01T00:00:00.000Z''),
          (''lastUpdatedAt'', Str ''2024-01-01T00:00:00.000Z'')]"

definition storedWithoutPlayers :: string where
  \<open>storedWithoutPlayers = ''{"gameId":"g-1","snakesAndLadders":[]}''\<close>

definition parsedWithoutPlayers :: jsval where
  "parsedWithoutPlayers = obj [(''gameId'', Str ''g-1''), (''snakesAndLadders'', Arr [])]"

definition exampleParseJSON :: "string \<Rightarrow> jsval option" where
  "exampleParseJSON text =
     (if text = storedWithoutGameId then Some parsedWithoutGameId
      else if text = storedWithoutPlayers then Some parsedWithoutPlayers
      else None)"

definition exampleStorage :: "string \<Rightarrow> storage" where
  "exampleStorage text = \<lparr> dl_game_state = Some text, dl_game_version = Some ''1.0.0'' \<rparr>"

section \<open>Properties of the game state store\<close>

subsection \<open>Looking players up\<close>

lemma findIndex_ge: "findIndex P xs \<ge> -1"
  by (induction xs) (auto simp: Let_def)

lemma findIndex_neg_iff: "findIndex P xs = -1 \<longleftrightarrow> (\<forall>x\<in>set xs. \<not> P x)"
proof (induction xs)
  case Nil
  then show ?case by simp
next
  case (Cons y ys)
  have "findIndex P ys \<ge> -1" by (rule findIndex_ge)
  with Cons show ?case by (auto simp: Let_def)
qed

lemma findIndex_find:
  "find P xs = Some x \<Longrightarrow>
     0 \<le> findIndex P xs \<and> nat (findIndex P xs) < length xs \<and> xs ! nat (findIndex P xs) = x"
proof (induction xs)
  case Nil
  then show ?case by simp
next
  case (Cons y ys)
  show ?case
  proof (cases "P y")
    case True
    with Cons.prems show ?thesis by simp
  next
    case False
    with Cons.prems have "find P ys = Some x" by simp
    from Cons.IH[OF this] False show ?thesis
      by (simp add: Let_def nat_add_distrib)
  qed
qed

lemma findIndex_nth_distinct:
  "distinct (map f xs) \<Longrightarrow> i < length xs \<Longrightarrow> findIndex (\<lambda>x. f x = f (xs ! i)) xs = int i"
proof (induction xs arbitrary: i)
  case Nil
  then show ?case by simp
next
  case (Cons y ys)
  show ?case
  proof (cases i)
    case 0
    then show ?thesis by simp
  next
    case (Suc j)
    with Cons.prems have j: "j < length ys" and d: "distinct (map f ys)" and
      n: "f y \<notin> f ` set ys" by auto
    from j n have "f y \<noteq> f (ys ! j)" by (metis imageI nth_mem)
    with Cons.IH[OF d j] Suc show ?thesis by (simp add: Let_def)
  qed
qed

lemma find_unique:
  assumes "distinct (map f xs)" "p \<in> set xs"
  shows "find (\<lambda>q. f q = f p) xs = Some p"
  using assms
proof (induction xs)
  case Nil
  then show ?case by simp
next
  case (Cons x xs)
  then show ?case by (cases "x = p") (auto simp: image_iff)
qed

subsection \<open>One call of nextTurn\<close>

lemma nextTurn_eq:
  "nextTurn now (Some s) = (Inr (), Some ((nextTurn_updater s)\<lparr>lastUpdatedAt := now\<rparr>))"
  by (simp add: nextTurn_def updateState_def)

lemma nextTurn_updater_players [simp]: "players (nextTurn_updater s) = players s"
  by (simp add: nextTurn_updater_def Let_def)

lemma nextTurn_updater_diceConfig:
  "diceConfig (nextTurn_updater s) =
     (if 0 < activePlayerCount s \<and> int (activePlayerCount s) \<le> turnsInCurrentRound s + 1
      then (case pendingMaxPoints (diceConfig s) of
              Some v \<Rightarrow> \<lparr> maxPoints = v, pendingMaxPoints = None \<rparr>
            | None \<Rightarrow> diceConfig s)
      else diceConfig s)"
  by (simp add: nextTurn_updater_def activePlayerCount_def Let_def)

lemma nextTurn_updater_turns:
  "turnsInCurrentRound (nextTurn_updater s) =
     (if activePlayerCount s = 0 then turnsInCurrentRound s
      else if int (activePlayerCount s) \<le> turnsInCurrentRound s + 1 then 0
      else turnsInCurrentRound s + 1)"
  by (simp add: nextTurn_updater_def activePlayerCount_def Let_def)

lemma nextTurn_updater_round:
  "currentRound (nextTurn_updater s) =
     (if 0 < activePlayerCount s \<and> int (activePlayerCount s) \<le> turnsInCurrentRound s + 1
      then currentRound s + 1 else currentRound s)"
  by (simp add: nextTurn_updater_def activePlayerCount_def Let_def)

lemma nextTurn_updater_roller:
  "0 < activePlayerCount s \<Longrightarrow>
   currentDiceRollerId (nextTurn_updater s) =
     pid (sortedActivePlayers s !
            nat ((findIndex (\<lambda>p. pid p = currentDiceRollerId s) (sortedActivePlayers s) + 1)
                   mod int (activePlayerCount s)))"
  by (simp add: nextTurn_updater_def activePlayerCount_def sortedActivePlayers_def Let_def)

lemma activePlayerCount_nextTurn [simp]:
  "activePlayerCount (nextTurn_updater s) = activePlayerCount s"
  by (simp add: activePlayerCount_def)

lemma activePlayerCount_lastUpdatedAt [simp]:
  "activePlayerCount (s\<lparr>lastUpdatedAt := t\<rparr>) = activePlayerCount s"
  by (simp add: activePlayerCount_def)

lemma length_sortedActivePlayers [simp]:
  "length (sortedActivePlayers s) = activePlayerCount s"
  by (simp add: sortedActivePlayers_def activePlayerCount_def)

lemma sortedActivePlayers_nextTurn [simp]:
  "sortedActivePlayers ((nextTurn_updater s)\<lparr>lastUpdatedAt := t\<rparr>) = sortedActivePlayers s"
  by (simp add: sortedActivePlayers_def)

lemma distinct_pid_sorted:
  "distinct (map pid (filter (\<lambda>p. \<not> isFinished p) (players s))) \<Longrightarrow>
   distinct (map pid (sortedActivePlayers s))"
  by (simp add: sortedActivePlayers_def distinct_map)

lemma roller_index:
  assumes "\<exists>p\<in>set (players s). \<not> isFinished p \<and> pid p = currentDiceRollerId s"
  shows "\<exists>i < activePlayerCount s. currentDiceRollerId s = pid (sortedActivePlayers s ! i)"
proof -
  from assms obtain p where "p \<in> set (sortedActivePlayers s)" "pid p = currentDiceRollerId s"
    by (auto simp: sortedActivePlayers_def)
  then obtain i where "i < length (sortedActivePlayers s)" "sortedActivePlayers s ! i = p"
    by (auto simp: in_set_conv_nth)
  with \<open>pid p = currentDiceRollerId s\<close> show ?thesis by auto
qed

subsection \<open>The rotation against the specification's wording\<close>

lemma filter_greater_strict_sorted:
  fixes f :: "'a \<Rightarrow> 'b::linorder"
  assumes "sorted_wrt (<) (map f xs)" "i < length xs"
  shows "filter (\<lambda>p. f (xs ! i) < f p) xs = drop (Suc i) xs"
proof -
  have nth: "\<And>a b. a < b \<Longrightarrow> b < length xs \<Longrightarrow> f (xs ! a) < f (xs ! b)"
    using assms(1) by (auto simp: sorted_wrt_iff_nth_less)
  have xs: "xs = take i xs @ xs ! i # drop (Suc i) xs"
    using assms(2) by (rule id_take_nth_drop)
  have a: "filter (\<lambda>p. f (xs ! i) < f p) (take i xs) = []"
  proof -
    have "\<not> f (xs ! i) < f p" if "p \<in> set (take i xs)" for p
    proof -
      from that obtain a where "a < i" "a < length xs" "p = xs ! a"
        by (auto simp: in_set_conv_nth)
      with nth[of a i] assms(2) show ?thesis by (simp add: not_less less_imp_le)
    qed
    then show ?thesis by (simp add: filter_empty_conv)
  qed
  have b: "filter (\<lambda>p. f (xs ! i) < f p) (drop (Suc i) xs) = drop (Suc i) xs"
  proof -
    have "f (xs ! i) < f p" if "p \<in> set (drop (Suc i) xs)" for p
    proof -
      from that obtain a where "a < length xs - Suc i" "p = xs ! (Suc i + a)"
        by (auto simp: in_set_conv_nth)
      with nth[of i "Suc i + a"] show ?thesis by auto
    qed
    then show ?thesis by (simp add: filter_id_conv)
  qed
  have "filter (\<lambda>p. f (xs ! i) < f p) xs
          = filter (\<lambda>p. f (xs ! i) < f p) (take i xs @ xs ! i # drop (Suc i) xs)"
    using xs by simp
  also have "\<dots> = drop (Suc i) xs"
    using a b by simp
  finally show ?thesis .
qed

text \<open>
  While the current roller is still in play, \<open>nextTurn\<close> hands the dice to the player the
  specification names (player ids unique, turn orders of the active players distinct).
\<close>

lemma nextTurn_active_roller_follows_spec:
  assumes ids: "distinct (map pid (players s))"
    and orders: "distinct (map turnOrder (filter (\<lambda>p. \<not> isFinished p) (players s)))"
    and active: "\<exists>p\<in>set (players s). \<not> isFinished p \<and> pid p = currentDiceRollerId s"
  shows "\<exists>s'. nextTurn now (Some s) = (Inr (), Some s')
            \<and> spec_nextRollerId s = Some (currentDiceRollerId s')"
proof -
  let ?act = "sortedActivePlayers s"
  let ?n = "activePlayerCount s"
  from active obtain r where r: "r \<in> set (players s)" "\<not> isFinished r"
    "pid r = currentDiceRollerId s" by blast
  have fr: "find (\<lambda>p. pid p = currentDiceRollerId s) (players s) = Some r"
    using find_unique[OF ids r(1)] r(3) by simp
  have dact: "distinct (map pid ?act)"
    using ids by (intro distinct_pid_sorted) (simp add: distinct_map_filter)
  from r have "r \<in> set ?act" by (simp add: sortedActivePlayers_def)
  then obtain i where i: "i < length ?act" "?act ! i = r"
    by (auto simp: in_set_conv_nth)
  then have n: "0 < ?n" and i': "i < ?n" by simp_all
  have fi: "findIndex (\<lambda>p. pid p = currentDiceRollerId s) ?act = int i"
    using findIndex_nth_distinct[OF dact i(1)] i(2) r(3) by simp
  have idx: "nat ((int i + 1) mod int ?n) = Suc i mod ?n"
    by (metis Suc_eq_plus1 nat_int of_nat_1 of_nat_add zmod_int)
  have code: "currentDiceRollerId (nextTurn_updater s) = pid (?act ! (Suc i mod ?n))"
    using n fi idx by (simp add: nextTurn_updater_roller)
  have "distinct (map turnOrder ?act)"
    using orders by (simp add: sortedActivePlayers_def distinct_map)
  moreover have "sorted (map turnOrder ?act)"
    by (simp add: sortedActivePlayers_def)
  ultimately have strict: "sorted_wrt (<) (map turnOrder ?act)"
    by (simp add: strict_sorted_iff)
  have fl: "filter (\<lambda>p. turnOrder r < turnOrder p) ?act = drop (Suc i) ?act"
    using filter_greater_strict_sorted[OF strict i(1)] i(2) by simp
  have spec: "spec_nextRollerId s = Some (pid (?act ! (Suc i mod ?n)))"
  proof (cases "Suc i < ?n")
    case True
    then have "drop (Suc i) ?act = ?act ! Suc i # drop (Suc (Suc i)) ?act"
      by (simp add: Cons_nth_drop_Suc)
    with True fl fr show ?thesis by (simp add: spec_nextRollerId_def)
  next
    case False
    with i' have e: "Suc i = ?n" by simp
    then have d: "drop (Suc i) ?act = []" by simp
    from n length_sortedActivePlayers[of s] obtain q qs where q: "?act = q # qs"
      by (cases ?act) auto
    then have "?act ! 0 = q" by simp
    with e d fl fr q show ?thesis by (simp add: spec_nextRollerId_def)
  qed
  from code spec show ?thesis by (simp add: nextTurn_eq)
qed

text \<open>
  Claim C1. \<open>nextTurn\<close> is to hand the dice to the next non-finished player in turn order
  after the current roller, also when that roller has just been marked finished. It does
  not in that case: the finished roller is not among the active players, \<open>findIndex\<close>
  returns -1, and the rotation restarts at the first active player. Here An, Binh and Chi
  play in this order and it is Binh's turn: Binh moves by 6 onto 100 and is marked
  finished, as the game screen does before it calls \<open>nextTurn\<close>. The next roller by the
  specification is Chi (p3); \<open>nextTurn\<close> makes it An (p1).
\<close>

theorem nextTurn_restarts_after_finished_roller:
  "movePlayer ''p2'' 6 (Date 2000) (Some exampleState) = (Inr (), Some binhAt100State)
 \<and> checkWinCondition ''p2'' (Some binhAt100State)
 \<and> markPlayerFinished ''p2'' (Date 1000) (Date 3000) (Some binhAt100State)
      = (Inr (), Some binhFinishedState)
 \<and> spec_nextRollerId binhFinishedState = Some ''p3''
 \<and> nextTurn (Date 4000) (Some binhFinishedState)
      = (Inr (), Some (binhFinishedState
           \<lparr>currentDiceRollerId := ''p1'', selectedTargetId := None, lastDiceResult := None,
            turnsInCurrentRound := 0, currentRound := 2,
            diceConfig := \<lparr> maxPoints = 6, pendingMaxPoints = None \<rparr>,
            lastUpdatedAt := Date 4000\<rparr>))"
  by (simp add: movePlayer_def movePlayer_updater_def updateState_def validatePosition_def
        checkWinCondition_def markPlayerFinished_def markPlayerFinished_updater_def
        nextTurn_def nextTurn_updater_def spec_nextRollerId_def sortedActivePlayers_def
        exampleState_def binhAt100State_def binhFinishedState_def
        playerAn_def playerBinh_def playerChi_def Let_def)


subsection \<open>movePlayer\<close>

text \<open>
  Claim C2, as amended. Let \<open>player\<close> be the player that \<open>movePlayer(playerId, steps)\<close>
  finds (the first with that id). If \<open>position + steps > 100\<close> the list of players, and
  with it the position, is left as it was. If \<open>0 \<le> position + steps \<le> 100\<close> the call
  succeeds and sets the position to \<open>position + steps\<close>. If \<open>position + steps < 0\<close> the
  call throws \<open>InvalidPositionError\<close> and the state is unchanged. With \<open>steps \<ge> 0\<close> and
  a starting position in 0..100 the call succeeds and the resulting position is in 0..100.
\<close>

theorem movePlayer_cases:
  assumes "find (\<lambda>p. pid p = playerId) (players s) = Some player"
  shows "(position player + steps > 100 \<longrightarrow>
            (\<exists>r s'. movePlayer playerId steps now (Some s) = (r, Some s') \<and> players s' = players s))
       \<and> (0 \<le> position player + steps \<and> position player + steps \<le> 100 \<longrightarrow>
            movePlayer playerId steps now (Some s)
              = (Inr (), Some (s\<lparr>players :=
                   (players s)[nat (findIndex (\<lambda>p. pid p = playerId) (players s)) :=
                      player\<lparr>position := position player + steps\<rparr>],
                   lastUpdatedAt := now\<rparr>)))
       \<and> (position player + steps < 0 \<longrightarrow>
            movePlayer playerId steps now (Some s)
              = (Inl (InvalidPositionError (position player + steps)), Some s))
       \<and> (0 \<le> steps \<and> 0 \<le> position player \<and> position player \<le> 100 \<longrightarrow>
            (\<exists>s'. movePlayer playerId steps now (Some s) = (Inr (), Some s')
               \<and> 0 \<le> position (players s' ! nat (findIndex (\<lambda>p. pid p = playerId) (players s)))
               \<and> position (players s' ! nat (findIndex (\<lambda>p. pid p = playerId) (players s))) \<le> 100))"
proof -
  let ?i = "findIndex (\<lambda>p. pid p = playerId) (players s)"
  from findIndex_find[OF assms]
  have i: "0 \<le> ?i" and len: "nat ?i < length (players s)" and p: "players s ! nat ?i = player"
    by simp_all
  from i have ne: "?i \<noteq> -1" by simp
  have same: "(players s)[nat ?i := player] = players s"
    using p by (metis list_update_id)
  have a: "position player + steps > 100 \<Longrightarrow>
            (\<exists>r s'. movePlayer playerId steps now (Some s) = (r, Some s') \<and> players s' = players s)"
    using ne p same
    by (auto simp: movePlayer_def movePlayer_updater_def updateState_def Let_def validatePosition_def)
  have b: "0 \<le> position player + steps \<and> position player + steps \<le> 100 \<Longrightarrow>
            movePlayer playerId steps now (Some s)
              = (Inr (), Some (s\<lparr>players :=
                   (players s)[nat ?i := player\<lparr>position := position player + steps\<rparr>],
                   lastUpdatedAt := now\<rparr>))"
    using ne p
    by (simp add: movePlayer_def movePlayer_updater_def updateState_def Let_def validatePosition_def)
  have c: "position player + steps < 0 \<Longrightarrow>
            movePlayer playerId steps now (Some s)
              = (Inl (InvalidPositionError (position player + steps)), Some s)"
    using ne p
    by (simp add: movePlayer_def movePlayer_updater_def updateState_def Let_def validatePosition_def)
  have d: "0 \<le> steps \<and> 0 \<le> position player \<and> position player \<le> 100 \<Longrightarrow>
            (\<exists>s'. movePlayer playerId steps now (Some s) = (Inr (), Some s')
               \<and> 0 \<le> position (players s' ! nat ?i) \<and> position (players s' ! nat ?i) \<le> 100)"
    using ne p len same
    by (auto simp: movePlayer_def movePlayer_updater_def updateState_def Let_def validatePosition_def)
  from a b c d show ?thesis by blast
qed

theorem movePlayer_cases_witness:
  "find (\<lambda>p. pid p = ''p2'') (players exampleState) = Some playerBinh
 \<and> position playerBinh + 10 > 100
 \<and> (\<exists>r s'. movePlayer ''p2'' 10 (Date 2000) (Some exampleState) = (r, Some s')
       \<and> players s' = players exampleState)
 \<and> 0 \<le> position playerBinh + 6 \<and> position playerBinh + 6 \<le> 100
 \<and> movePlayer ''p2'' 6 (Date 2000) (Some exampleState) = (Inr (), Some binhAt100State)
 \<and> (0::int) \<le> 6 \<and> 0 \<le> position playerBinh \<and> position playerBinh \<le> 100
 \<and> position (players binhAt100State ! 1) = 100
 \<and> find (\<lambda>p. pid p = ''p1'') (players exampleState) = Some playerAn
 \<and> position playerAn + (-1) < 0
 \<and> movePlayer ''p1'' (-1) (Date 2000) (Some exampleState)
      = (Inl (InvalidPositionError (-1)), Some exampleState)"
proof -
  have b: "find (\<lambda>p. pid p = ''p2'') (players exampleState) = Some playerBinh"
    and a: "find (\<lambda>p. pid p = ''p1'') (players exampleState) = Some playerAn"
    by (simp_all add: exampleState_def playerAn_def playerBinh_def)
  show ?thesis
    using a b movePlayer_cases[OF b, of 10 "Date 2000"] movePlayer_cases[OF b, of 6 "Date 2000"]
      movePlayer_cases[OF a, of "-1" "Date 2000"]
    by (simp add: exampleState_def binhAt100State_def playerAn_def playerBinh_def playerChi_def)
qed

text \<open>
  The claim as first stated has \<open>movePlayer\<close> set the position to \<open>position + steps\<close>
  whenever that sum is not above 100. With An on 0 and \<open>steps = -1\<close> the sum is -1, not
  above 100, and the call throws instead: An stays on 0.
\<close>

theorem movePlayer_negative_steps_counterexample:
  "\<not> position playerAn + (-1) > 100
 \<and> movePlayer ''p1'' (-1) (Date 2000) (Some exampleState)
      = (Inl (InvalidPositionError (-1)), Some exampleState)
 \<and> position (players exampleState ! 0) = position playerAn
 \<and> position (players exampleState ! 0) \<noteq> position playerAn + (-1)"
  by (simp add: movePlayer_def movePlayer_updater_def updateState_def validatePosition_def
        exampleState_def playerAn_def playerBinh_def playerChi_def Let_def)

subsection \<open>Winning\<close>

text \<open>
  Claim C3. For a player id present in the state (\<open>player\<close> is the player \<open>find\<close> returns
  for it), \<open>checkWinCondition\<close> is true exactly when the player's position is 100;
  \<open>markPlayerFinished\<close> throws and leaves the state unchanged when the position is not
  100, and at 100 it sets \<open>isFinished\<close> and stamps \<open>finishTime\<close> of that player.
\<close>

theorem win_law:
  assumes "find (\<lambda>p. pid p = playerId) (players s) = Some player"
  shows "checkWinCondition playerId (Some s) = (position player = 100)
       \<and> (position player \<noteq> 100 \<longrightarrow>
            markPlayerFinished playerId finishedAt now (Some s)
              = (Inl (NotAtPosition100 (name player)), Some s))
       \<and> (position player = 100 \<longrightarrow>
            markPlayerFinished playerId finishedAt now (Some s)
              = (Inr (), Some (s\<lparr>players :=
                   (players s)[nat (findIndex (\<lambda>p. pid p = playerId) (players s)) :=
                      player\<lparr>isFinished := True, finishTime := Some finishedAt\<rparr>],
                   lastUpdatedAt := now\<rparr>)))"
proof -
  let ?i = "findIndex (\<lambda>p. pid p = playerId) (players s)"
  from findIndex_find[OF assms]
  have i: "0 \<le> ?i" and p: "players s ! nat ?i = player"
    by simp_all
  from i have ne: "?i \<noteq> -1" by simp
  have w: "checkWinCondition playerId (Some s) = (position player = 100)"
    using assms by (simp add: checkWinCondition_def)
  have f: "position player \<noteq> 100 \<Longrightarrow>
            markPlayerFinished playerId finishedAt now (Some s)
              = (Inl (NotAtPosition100 (name player)), Some s)"
    using ne p
    by (simp add: markPlayerFinished_def markPlayerFinished_updater_def updateState_def Let_def)
  have g: "position player = 100 \<Longrightarrow>
            markPlayerFinished playerId finishedAt now (Some s)
              = (Inr (), Some (s\<lparr>players :=
                   (players s)[nat ?i := player\<lparr>isFinished := True, finishTime := Some finishedAt\<rparr>],
                   lastUpdatedAt := now\<rparr>))"
    using ne p
    by (simp add: markPlayerFinished_def markPlayerFinished_updater_def updateState_def Let_def)
  from w f g show ?thesis by blast
qed

theorem win_law_witness:
  "find (\<lambda>p. pid p = ''p1'') (players binhAt100State) = Some playerAn
 \<and> position playerAn \<noteq> 100
 \<and> \<not> checkWinCondition ''p1'' (Some binhAt100State)
 \<and> markPlayerFinished ''p1'' (Date 1000) (Date 3000) (Some binhAt100State)
      = (Inl (NotAtPosition100 ''An''), Some binhAt100State)
 \<and> find (\<lambda>p. pid p = ''p2'') (players binhAt100State) = Some (playerBinh\<lparr>position := 100\<rparr>)
 \<and> position (playerBinh\<lparr>position := 100\<rparr>) = 100
 \<and> checkWinCondition ''p2'' (Some binhAt100State)
 \<and> markPlayerFinished ''p2'' (Date 1000) (Date 3000) (Some binhAt100State)
      = (Inr (), Some binhFinishedState)"
proof -
  have a: "find (\<lambda>p. pid p = ''p1'') (players binhAt100State) = Some playerAn"
    and b: "find (\<lambda>p. pid p = ''p2'') (players binhAt100State)
              = Some (playerBinh\<lparr>position := 100\<rparr>)"
    by (simp_all add: binhAt100State_def exampleState_def playerAn_def playerBinh_def)
  show ?thesis
    using a b win_law[OF a, of "Date 1000" "Date 3000"] win_law[OF b, of "Date 1000" "Date 3000"]
    by (simp add: binhAt100State_def binhFinishedState_def exampleState_def
          playerAn_def playerBinh_def playerChi_def)
qed

subsection \<open>All players finished\<close>

text \<open>
  Claim C10. When every player is finished, \<open>nextTurn\<close> succeeds and changes nothing but
  \<open>lastUpdatedAt\<close>: the roller, the two round counters, the selected target, the last dice
  result and the dice configuration (pending value included) stay as they are.
\<close>

theorem nextTurn_all_finished:
  assumes "\<forall>p\<in>set (players s). isFinished p"
  shows "nextTurn now (Some s) = (Inr (), Some (s\<lparr>lastUpdatedAt := now\<rparr>))"
proof -
  from assms have "filter (\<lambda>p. \<not> isFinished p) (players s) = []"
    by (simp add: filter_empty_conv)
  then have "nextTurn_updater s = s"
    by (simp add: nextTurn_updater_def)
  then show ?thesis
    by (simp add: nextTurn_def updateState_def)
qed

theorem nextTurn_all_finished_witness:
  "list_all isFinished (players allFinishedState)
 \<and> nextTurn (Date 4000) (Some allFinishedState)
      = (Inr (), Some (allFinishedState\<lparr>lastUpdatedAt := Date 4000\<rparr>))
 \<and> pendingMaxPoints (diceConfig allFinishedState) = Some 6
 \<and> selectedTargetId allFinishedState = Some ''p2''"
proof -
  have h: "\<forall>p\<in>set (players allFinishedState). isFinished p"
    by (simp add: allFinishedState_def exampleState_def playerAn_def playerBinh_def)
  show ?thesis
    using h nextTurn_all_finished[OF h, of "Date 4000"]
    by (simp add: allFinishedState_def exampleState_def list_all_iff)
qed

subsection \<open>Initialisation\<close>

text \<open>
  Claim C6, as amended. For at least two players and any list of winning positions,
  initialisation succeeds and the state's \<open>winningPositions\<close> contains 16, is sorted
  ascending, and holds exactly the entries of the input, each as often as the input has
  it, with one 16 added when the input has none: duplicates are kept. For fewer than two
  players initialisation throws \<open>InvalidPlayerCountError\<close> and the store is unchanged.
\<close>

theorem initial_winningPositions:
  "(2 \<le> length ps \<longrightarrow>
      (\<exists>s. createInitialGameState uuid now ps sls teamsArg (Some wp) mapArg = Inr s
          \<and> initializeGame uuid now ps sls teamsArg (Some wp) mapArg st = (Inr (), Some s)
          \<and> 16 \<in> set (winningPositions s)
          \<and> sorted (winningPositions s)
          \<and> mset (winningPositions s) = (if 16 \<in> set wp then mset wp else add_mset 16 (mset wp))))
 \<and> (length ps < 2 \<longrightarrow>
      createInitialGameState uuid now ps sls teamsArg (Some wp) mapArg
        = Inl (InvalidPlayerCountError (length ps))
    \<and> initializeGame uuid now ps sls teamsArg (Some wp) mapArg st
        = (Inl (InvalidPlayerCountError (length ps)), st))"
  by (auto simp: createInitialGameState_def initializeGame_def validatePlayerCount_def Let_def)

theorem initial_winningPositions_witness:
  "2 \<le> length [playerAn, playerBinh]
 \<and> (\<exists>s. createInitialGameState ''g-1'' (Date 0) [playerAn, playerBinh] [] None (Some [20, 3]) None
            = Inr s
        \<and> initializeGame ''g-1'' (Date 0) [playerAn, playerBinh] [] None (Some [20, 3]) None None
            = (Inr (), Some s)
        \<and> winningPositions s = [3, 16, 20])
 \<and> length [playerAn] < 2
 \<and> initializeGame ''g-1'' (Date 0) [playerAn] [] None (Some [20, 3]) None None
      = (Inl (InvalidPlayerCountError 1), None)"
  using initial_winningPositions[of "[playerAn, playerBinh]" "''g-1''" "Date 0" "[]" None
          "[20, 3]" None None]
        initial_winningPositions[of "[playerAn]" "''g-1''" "Date 0" "[]" None "[20, 3]" None None]
  by (simp add: createInitialGameState_def initializeGame_def validatePlayerCount_def)

text \<open>
  The claim as first stated has no duplicate entries in \<open>winningPositions\<close>. The input
  \<open>[5, 5]\<close> gives \<open>[5, 5, 16]\<close>.
\<close>

theorem winningPositions_duplicates_counterexample:
  "map_sum id winningPositions
     (createInitialGameState ''g-1'' (Date 0) [playerAn, playerBinh] [] None (Some [5, 5]) None)
     = Inr [5, 5, 16]
 \<and> \<not> distinct [5, 5, 16 :: int]"
  by (simp add: createInitialGameState_def validatePlayerCount_def)


subsection \<open>Runs of nextTurn\<close>

lemma nextTurn_times_append:
  "nextTurn_times (xs @ ys) st =
     (case nextTurn_times xs st of
        (Inl e, st') \<Rightarrow> (Inl e, st')
      | (Inr u, st') \<Rightarrow> nextTurn_times ys st')"
  by (induction xs arbitrary: st) (auto split: prod.splits sum.splits)

text \<open>The roller after any number of calls, when the roller is in play and ids are unique.\<close>

lemma run_roller:
  assumes "distinct (map pid (sortedActivePlayers s))"
    and "i < activePlayerCount s"
    and "currentDiceRollerId s = pid (sortedActivePlayers s ! i)"
  shows "\<exists>s'. nextTurn_times nows (Some s) = (Inr (), Some s')
            \<and> players s' = players s
            \<and> currentDiceRollerId s' =
                pid (sortedActivePlayers s ! ((i + length nows) mod activePlayerCount s))"
  using assms
proof (induction nows arbitrary: s i)
  case Nil
  then show ?case by simp
next
  case (Cons t ts)
  let ?n = "activePlayerCount s"
  let ?s1 = "(nextTurn_updater s)\<lparr>lastUpdatedAt := t\<rparr>"
  let ?j = "(i + 1) mod ?n"
  from Cons.prems have n: "0 < ?n" by simp
  have fi: "findIndex (\<lambda>p. pid p = currentDiceRollerId s) (sortedActivePlayers s) = int i"
    using Cons.prems findIndex_nth_distinct[of pid "sortedActivePlayers s" i] by simp
  have "nat ((int i + 1) mod int ?n) = ?j"
    by (metis nat_int of_nat_1 of_nat_add zmod_int)
  with fi n have r1: "currentDiceRollerId ?s1 = pid (sortedActivePlayers ?s1 ! ?j)"
    by (simp add: nextTurn_updater_roller)
  have d1: "distinct (map pid (sortedActivePlayers ?s1))" using Cons.prems by simp
  have j1: "?j < activePlayerCount ?s1" using n by simp
  from Cons.IH[OF d1 j1 r1] obtain s' where
    s': "nextTurn_times ts (Some ?s1) = (Inr (), Some s')"
        "players s' = players ?s1"
        "currentDiceRollerId s' =
           pid (sortedActivePlayers ?s1 ! ((?j + length ts) mod activePlayerCount ?s1))"
    by blast
  have "(?j + length ts) mod ?n = (i + length (t # ts)) mod ?n"
    by (simp add: mod_add_left_eq add.assoc)
  with s' show ?case
    by (simp add: nextTurn_eq)
qed

text \<open>The counters and the dice configuration while the round is not yet complete.\<close>

lemma run_counters:
  assumes "0 < activePlayerCount s"
    and "turnsInCurrentRound s + int (length nows) < int (activePlayerCount s)"
  shows "\<exists>s'. nextTurn_times nows (Some s) = (Inr (), Some s')
            \<and> players s' = players s
            \<and> turnsInCurrentRound s' = turnsInCurrentRound s + int (length nows)
            \<and> currentRound s' = currentRound s
            \<and> diceConfig s' = diceConfig s"
  using assms
proof (induction nows arbitrary: s)
  case Nil
  then show ?case by simp
next
  case (Cons t ts)
  let ?s1 = "(nextTurn_updater s)\<lparr>lastUpdatedAt := t\<rparr>"
  from Cons.prems have small: "\<not> int (activePlayerCount s) \<le> turnsInCurrentRound s + 1" by simp
  have t1: "turnsInCurrentRound ?s1 = turnsInCurrentRound s + 1"
    using Cons.prems small by (simp add: nextTurn_updater_turns)
  have r1: "currentRound ?s1 = currentRound s"
    using small by (simp add: nextTurn_updater_round)
  have c1: "diceConfig ?s1 = diceConfig s"
    using small by (simp add: nextTurn_updater_diceConfig)
  have "0 < activePlayerCount ?s1" using Cons.prems by simp
  moreover have "turnsInCurrentRound ?s1 + int (length ts) < int (activePlayerCount ?s1)"
    using Cons.prems t1 by simp
  ultimately obtain s' where
    "nextTurn_times ts (Some ?s1) = (Inr (), Some s')" "players s' = players ?s1"
    "turnsInCurrentRound s' = turnsInCurrentRound ?s1 + int (length ts)"
    "currentRound s' = currentRound ?s1" "diceConfig s' = diceConfig ?s1"
    using Cons.IH[of ?s1] by blast
  with t1 r1 c1 show ?case
    by (simp add: nextTurn_eq)
qed

text \<open>The call that completes the round.\<close>

lemma run_rollover:
  assumes "0 < activePlayerCount s"
    and "turnsInCurrentRound s < int (activePlayerCount s)"
    and "turnsInCurrentRound s + int (length nows) = int (activePlayerCount s)"
  shows "\<exists>s'. nextTurn_times nows (Some s) = (Inr (), Some s')
            \<and> players s' = players s
            \<and> turnsInCurrentRound s' = 0
            \<and> currentRound s' = currentRound s + 1
            \<and> diceConfig s' =
                (case pendingMaxPoints (diceConfig s) of
                   Some pending \<Rightarrow> \<lparr> maxPoints = pending, pendingMaxPoints = None \<rparr>
                 | None \<Rightarrow> diceConfig s)"
proof -
  from assms have "nows \<noteq> []" by auto
  then obtain ks k where nows: "nows = ks @ [k]"
    by (metis rev_exhaust)
  with assms have lt: "turnsInCurrentRound s + int (length ks) < int (activePlayerCount s)"
    by simp
  from run_counters[OF assms(1) lt] obtain s1 where
    s1: "nextTurn_times ks (Some s) = (Inr (), Some s1)" "players s1 = players s"
        "turnsInCurrentRound s1 = turnsInCurrentRound s + int (length ks)"
        "currentRound s1 = currentRound s" "diceConfig s1 = diceConfig s"
    by blast
  have n1: "activePlayerCount s1 = activePlayerCount s"
    using s1(2) by (simp add: activePlayerCount_def)
  have full: "int (activePlayerCount s1) \<le> turnsInCurrentRound s1 + 1"
    using assms nows s1(3) n1 by simp
  let ?s2 = "(nextTurn_updater s1)\<lparr>lastUpdatedAt := k\<rparr>"
  have "nextTurn_times nows (Some s) = (Inr (), Some ?s2)"
    using s1(1) nows by (simp add: nextTurn_times_append nextTurn_eq)
  moreover have "turnsInCurrentRound ?s2 = 0"
    using full assms(1) n1 by (simp add: nextTurn_updater_turns)
  moreover have "currentRound ?s2 = currentRound s + 1"
    using full assms(1) n1 s1(4) by (simp add: nextTurn_updater_round)
  moreover have "diceConfig ?s2 =
      (case pendingMaxPoints (diceConfig s) of
         Some pending \<Rightarrow> \<lparr> maxPoints = pending, pendingMaxPoints = None \<rparr>
       | None \<Rightarrow> diceConfig s)"
    using full assms(1) n1 s1(5) by (simp add: nextTurn_updater_diceConfig split: option.splits)
  moreover have "players ?s2 = players s" using s1(2) by simp
  ultimately show ?thesis by blast
qed

text \<open>
  Claim C4. In a state whose active players have distinct ids (as the generated ids are),
  whose current roller is active and whose \<open>turnsInCurrentRound\<close> is 0, as many
  \<open>nextTurn\<close> calls as there are active players all succeed, bring the original roller
  back, increment \<open>currentRound\<close> by exactly 1 and leave \<open>turnsInCurrentRound\<close> at 0.
  After any smaller positive number of calls the roller is another player and the round
  number is still the old one.
\<close>

theorem nextTurn_full_round:
  assumes "distinct (map pid (filter (\<lambda>p. \<not> isFinished p) (players s)))"
    and "\<exists>p\<in>set (players s). \<not> isFinished p \<and> pid p = currentDiceRollerId s"
    and "turnsInCurrentRound s = 0"
    and "length nows = activePlayerCount s"
  shows "(\<exists>s'. nextTurn_times nows (Some s) = (Inr (), Some s')
            \<and> currentDiceRollerId s' = currentDiceRollerId s
            \<and> currentRound s' = currentRound s + 1
            \<and> turnsInCurrentRound s' = 0)
       \<and> (\<forall>k. 0 < k \<and> k < activePlayerCount s \<longrightarrow>
            (\<exists>s'. nextTurn_times (take k nows) (Some s) = (Inr (), Some s')
               \<and> currentDiceRollerId s' \<noteq> currentDiceRollerId s
               \<and> currentRound s' = currentRound s
               \<and> turnsInCurrentRound s' = int k))"
proof -
  let ?n = "activePlayerCount s"
  let ?act = "sortedActivePlayers s"
  from roller_index[OF assms(2)] obtain i where
    i: "i < ?n" "currentDiceRollerId s = pid (?act ! i)" by blast
  then have n: "0 < ?n" by simp
  have d: "distinct (map pid ?act)" by (rule distinct_pid_sorted[OF assms(1)])
  have full: "\<exists>s'. nextTurn_times nows (Some s) = (Inr (), Some s')
            \<and> currentDiceRollerId s' = currentDiceRollerId s
            \<and> currentRound s' = currentRound s + 1
            \<and> turnsInCurrentRound s' = 0"
  proof -
    from run_roller[OF d i, of nows] obtain s' where
      a: "nextTurn_times nows (Some s) = (Inr (), Some s')"
         "currentDiceRollerId s' = pid (?act ! ((i + length nows) mod ?n))" by blast
    from run_rollover[OF n, of nows] n assms(3,4) obtain s'' where
      b: "nextTurn_times nows (Some s) = (Inr (), Some s'')"
         "turnsInCurrentRound s'' = 0" "currentRound s'' = currentRound s + 1" by auto
    from a(1) b(1) have "s'' = s'" by simp
    moreover have "(i + length nows) mod ?n = i" using assms(4) i(1) by simp
    ultimately show ?thesis using a b i(2) by auto
  qed
  have part: "\<exists>s'. nextTurn_times (take k nows) (Some s) = (Inr (), Some s')
               \<and> currentDiceRollerId s' \<noteq> currentDiceRollerId s
               \<and> currentRound s' = currentRound s
               \<and> turnsInCurrentRound s' = int k" if k: "0 < k" "k < ?n" for k
  proof -
    have len: "length (take k nows) = k" using k assms(4) by simp
    from run_roller[OF d i, of "take k nows"] len obtain s' where
      a: "nextTurn_times (take k nows) (Some s) = (Inr (), Some s')"
         "currentDiceRollerId s' = pid (?act ! ((i + k) mod ?n))" by auto
    from run_counters[OF n, of "take k nows"] len k assms(3) obtain s'' where
      b: "nextTurn_times (take k nows) (Some s) = (Inr (), Some s'')"
         "turnsInCurrentRound s'' = int k" "currentRound s'' = currentRound s" by auto
    from a(1) b(1) have same: "s'' = s'" by simp
    have neq: "(i + k) mod ?n \<noteq> i"
    proof
      assume e: "(i + k) mod ?n = i"
      have "(i + k) mod ?n = (if i + k < ?n then i + k else i + k - ?n)"
        using i(1) k by (simp add: mod_if)
      with e k i(1) show False by (auto split: if_splits)
    qed
    have lt: "(i + k) mod ?n < length ?act" using n by simp
    have "pid (?act ! ((i + k) mod ?n)) \<noteq> pid (?act ! i)"
      using d neq lt i(1) by (simp add: distinct_conv_nth)
    with a b same i(2) show ?thesis by auto
  qed
  from full part show ?thesis by blast
qed

theorem nextTurn_full_round_witness:
  "distinct (map pid (filter (\<lambda>p. \<not> isFinished p) (players roundStartState)))
 \<and> list_ex (\<lambda>p. \<not> isFinished p \<and> pid p = currentDiceRollerId roundStartState)
      (players roundStartState)
 \<and> turnsInCurrentRound roundStartState = 0
 \<and> length [Date 1, Date 2, Date 3] = activePlayerCount roundStartState
 \<and> (\<exists>s'. nextTurn_times [Date 1, Date 2, Date 3] (Some roundStartState) = (Inr (), Some s')
       \<and> currentDiceRollerId s' = ''p1''
       \<and> currentRound s' = 2
       \<and> turnsInCurrentRound s' = 0)
 \<and> (\<exists>s'. nextTurn_times [Date 1] (Some roundStartState) = (Inr (), Some s')
       \<and> currentDiceRollerId s' = ''p2'' \<and> currentRound s' = 1)"
proof -
  have a: "distinct (map pid (filter (\<lambda>p. \<not> isFinished p) (players roundStartState)))"
    and b: "\<exists>p\<in>set (players roundStartState).
              \<not> isFinished p \<and> pid p = currentDiceRollerId roundStartState"
    and c: "turnsInCurrentRound roundStartState = 0"
    and d: "length [Date 1, Date 2, Date 3] = activePlayerCount roundStartState"
    by (simp_all add: roundStartState_def exampleState_def activePlayerCount_def
          playerAn_def playerBinh_def playerChi_def)
  show ?thesis
    using a b c d nextTurn_full_round[OF a b c d]
    by (simp add: roundStartState_def exampleState_def activePlayerCount_def
          nextTurn_def nextTurn_updater_def updateState_def Let_def
          playerAn_def playerBinh_def playerChi_def)
qed

subsection \<open>Dice configuration\<close>

lemma rollDice_range:
  assumes "0 \<le> r" "r < 1" "1 \<le> maxPoints (diceConfig s)"
  shows "\<exists>k. rollDice r (Some s) = Inr k \<and> 1 \<le> k \<and> k \<le> maxPoints (diceConfig s)"
proof -
  let ?m = "of_int (maxPoints (diceConfig s)) :: rat"
  have m: "0 < ?m" using assms(3) by simp
  have "0 \<le> r * ?m" using assms(1) m by simp
  then have lo: "0 \<le> \<lfloor>r * ?m\<rfloor>" by (simp only: zero_le_floor)
  have "r * ?m < ?m" using assms(2) m by simp
  then have "\<lfloor>r * ?m\<rfloor> < maxPoints (diceConfig s)" by (simp only: floor_less_iff)
  with lo show ?thesis by (simp add: rollDice_def)
qed

text \<open>
  Claim C5. For an integer \<open>v \<ge> 1\<close>, \<open>updateDiceConfigPending(v)\<close> only sets
  \<open>pendingMaxPoints\<close> to \<open>v\<close> (and \<open>lastUpdatedAt\<close>): \<open>maxPoints\<close>, and with it every roll
  of \<open>rollDice\<close>, is as before, a roll lying in 1..maxPoints. A value that is no integer
  or is below 1 makes \<open>updateDiceConfig\<close> and \<open>updateDiceConfigPending\<close> throw and leaves
  the store as it was. One \<open>nextTurn\<close> call applies the pending value (\<open>maxPoints\<close>
  becomes the pending value, \<open>pendingMaxPoints\<close> null) exactly when it crosses a round
  boundary, that is when there are active players and \<open>turnsInCurrentRound + 1\<close> reaches
  their number; otherwise it leaves the dice configuration untouched. So with a pending
  value staged, the calls before the round is complete keep the configuration, and the
  call that completes the round applies it.
\<close>

theorem dice_config_staging:
  "(1 \<le> v \<longrightarrow>
      updateDiceConfigPending (Finite (of_int v)) now (Some s)
        = (Inr (), Some (s\<lparr>diceConfig := (diceConfig s)\<lparr>pendingMaxPoints := Some v\<rparr>,
                           lastUpdatedAt := now\<rparr>))
    \<and> rollDice r (snd (updateDiceConfigPending (Finite (of_int v)) now (Some s)))
        = rollDice r (Some s))
 \<and> (0 \<le> r \<and> r < 1 \<and> 1 \<le> maxPoints (diceConfig s) \<longrightarrow>
      (\<exists>k. rollDice r (Some s) = Inr k \<and> 1 \<le> k \<and> k \<le> maxPoints (diceConfig s)))
 \<and> (\<not> validateMaxPoints mp \<longrightarrow>
      updateDiceConfig mp now st = (Inl (InvalidMaxPoints mp), st)
    \<and> updateDiceConfigPending mp now st = (Inl (InvalidMaxPoints mp), st))
 \<and> (\<exists>s'. nextTurn now (Some s) = (Inr (), Some s')
       \<and> diceConfig s' =
           (if 0 < activePlayerCount s \<and> int (activePlayerCount s) \<le> turnsInCurrentRound s + 1
            then (case pendingMaxPoints (diceConfig s) of
                    Some pending \<Rightarrow> \<lparr> maxPoints = pending, pendingMaxPoints = None \<rparr>
                  | None \<Rightarrow> diceConfig s)
            else diceConfig s))
 \<and> (0 < activePlayerCount s
      \<and> turnsInCurrentRound s + int (length early) < int (activePlayerCount s) \<longrightarrow>
      (\<exists>s'. nextTurn_times early (Some s) = (Inr (), Some s') \<and> diceConfig s' = diceConfig s))
 \<and> (0 < activePlayerCount s \<and> turnsInCurrentRound s < int (activePlayerCount s)
      \<and> turnsInCurrentRound s + int (length full) = int (activePlayerCount s)
      \<and> pendingMaxPoints (diceConfig s) = Some pending \<longrightarrow>
      (\<exists>s'. nextTurn_times full (Some s) = (Inr (), Some s')
         \<and> diceConfig s' = \<lparr> maxPoints = pending, pendingMaxPoints = None \<rparr>
         \<and> currentRound s' = currentRound s + 1))"
proof -
  have a: "1 \<le> v \<longrightarrow>
      updateDiceConfigPending (Finite (of_int v)) now (Some s)
        = (Inr (), Some (s\<lparr>diceConfig := (diceConfig s)\<lparr>pendingMaxPoints := Some v\<rparr>,
                           lastUpdatedAt := now\<rparr>))
    \<and> rollDice r (snd (updateDiceConfigPending (Finite (of_int v)) now (Some s)))
        = rollDice r (Some s)"
    by (simp add: updateDiceConfigPending_def updateState_def rollDice_def)
  have b: "0 \<le> r \<and> r < 1 \<and> 1 \<le> maxPoints (diceConfig s) \<longrightarrow>
      (\<exists>k. rollDice r (Some s) = Inr k \<and> 1 \<le> k \<and> k \<le> maxPoints (diceConfig s))"
    using rollDice_range[of r s] by blast
  have c: "\<not> validateMaxPoints mp \<longrightarrow>
      updateDiceConfig mp now st = (Inl (InvalidMaxPoints mp), st)
    \<and> updateDiceConfigPending mp now st = (Inl (InvalidMaxPoints mp), st)"
    by (simp add: updateDiceConfigPending_def updateDiceConfig_def)
  have d: "\<exists>s'. nextTurn now (Some s) = (Inr (), Some s')
       \<and> diceConfig s' =
           (if 0 < activePlayerCount s \<and> int (activePlayerCount s) \<le> turnsInCurrentRound s + 1
            then (case pendingMaxPoints (diceConfig s) of
                    Some pending \<Rightarrow> \<lparr> maxPoints = pending, pendingMaxPoints = None \<rparr>
                  | None \<Rightarrow> diceConfig s)
            else diceConfig s)"
    by (simp add: nextTurn_eq nextTurn_updater_diceConfig)
  have e: "0 < activePlayerCount s
      \<and> turnsInCurrentRound s + int (length early) < int (activePlayerCount s) \<longrightarrow>
      (\<exists>s'. nextTurn_times early (Some s) = (Inr (), Some s') \<and> diceConfig s' = diceConfig s)"
    using run_counters[of s early] by blast
  have f: "0 < activePlayerCount s \<and> turnsInCurrentRound s < int (activePlayerCount s)
      \<and> turnsInCurrentRound s + int (length full) = int (activePlayerCount s)
      \<and> pendingMaxPoints (diceConfig s) = Some pending \<longrightarrow>
      (\<exists>s'. nextTurn_times full (Some s) = (Inr (), Some s')
         \<and> diceConfig s' = \<lparr> maxPoints = pending, pendingMaxPoints = None \<rparr>
         \<and> currentRound s' = currentRound s + 1)"
  proof
    assume h: "0 < activePlayerCount s \<and> turnsInCurrentRound s < int (activePlayerCount s)
      \<and> turnsInCurrentRound s + int (length full) = int (activePlayerCount s)
      \<and> pendingMaxPoints (diceConfig s) = Some pending"
    then obtain s' where "nextTurn_times full (Some s) = (Inr (), Some s')"
      "currentRound s' = currentRound s + 1"
      "diceConfig s' =
         (case pendingMaxPoints (diceConfig s) of
            Some pending \<Rightarrow> \<lparr> maxPoints = pending, pendingMaxPoints = None \<rparr>
          | None \<Rightarrow> diceConfig s)"
      using run_rollover[of s full] by blast
    with h show "\<exists>s'. nextTurn_times full (Some s) = (Inr (), Some s')
         \<and> diceConfig s' = \<lparr> maxPoints = pending, pendingMaxPoints = None \<rparr>
         \<and> currentRound s' = currentRound s + 1"
      by simp
  qed
  from a b c d e f show ?thesis by blast
qed

theorem dice_config_staging_witness:
  "(1::int) \<le> 6
 \<and> updateDiceConfigPending (Finite 6) (Date 5) (Some roundStartState)
      = (Inr (), Some (roundStartState\<lparr>lastUpdatedAt := Date 5\<rparr>))
 \<and> (0::rat) \<le> 1/2 \<and> (1/2::rat) < 1 \<and> 1 \<le> maxPoints (diceConfig roundStartState)
 \<and> rollDice (1/2) (Some roundStartState) = Inr 7
 \<and> \<not> validateMaxPoints (Finite (5/2))
 \<and> updateDiceConfigPending (Finite (5/2)) (Date 5) (Some roundStartState)
      = (Inl (InvalidMaxPoints (Finite (5/2))), Some roundStartState)
 \<and> updateDiceConfig (Finite 0) (Date 5) (Some roundStartState)
      = (Inl (InvalidMaxPoints (Finite 0)), Some roundStartState)
 \<and> 0 < activePlayerCount roundStartState
 \<and> turnsInCurrentRound roundStartState < int (activePlayerCount roundStartState)
 \<and> turnsInCurrentRound roundStartState + int (length [Date 1, Date 2])
      < int (activePlayerCount roundStartState)
 \<and> (\<exists>s'. nextTurn_times [Date 1, Date 2] (Some roundStartState) = (Inr (), Some s')
        \<and> diceConfig s' = \<lparr> maxPoints = 12, pendingMaxPoints = Some 6 \<rparr>)
 \<and> turnsInCurrentRound roundStartState + int (length [Date 1, Date 2, Date 3])
      = int (activePlayerCount roundStartState)
 \<and> pendingMaxPoints (diceConfig roundStartState) = Some 6
 \<and> (\<exists>s'. nextTurn_times [Date 1, Date 2, Date 3] (Some roundStartState) = (Inr (), Some s')
        \<and> diceConfig s' = \<lparr> maxPoints = 6, pendingMaxPoints = None \<rparr>
        \<and> currentRound s' = 2)"
proof -
  have fl: "\<lfloor>5 / 2 :: rat\<rfloor> = 2"
    by (simp add: floor_eq_iff)
  show ?thesis
    using fl
      dice_config_staging[of 6 "Date 5" roundStartState "1/2" "Finite (5/2)"
        "Some roundStartState" "[Date 1, Date 2]" "[Date 1, Date 2, Date 3]" 6]
      dice_config_staging[of 6 "Date 5" roundStartState "1/2" "Finite 0"
        "Some roundStartState" "[Date 1, Date 2]" "[Date 1, Date 2, Date 3]" 6]
    by (simp add: roundStartState_def exampleState_def activePlayerCount_def
          nextTurn_def nextTurn_updater_def updateState_def Let_def rollDice_def
          updateDiceConfigPending_def updateDiceConfig_def
          playerAn_def playerBinh_def playerChi_def)
qed


section \<open>Properties of the hazard generator\<close>

lemma getRandomInt_bounds:
  assumes "0 \<le> r" "r < 1" "lo \<le> hi"
  shows "lo \<le> getRandomInt r lo hi \<and> getRandomInt r lo hi \<le> hi"
proof -
  let ?m = "of_int (hi - lo + 1) :: rat"
  have m: "0 < ?m" using assms(3) by simp
  have "0 \<le> r * ?m" using assms(1) m by simp
  then have lo: "0 \<le> \<lfloor>r * ?m\<rfloor>" by (simp only: zero_le_floor)
  have "r * ?m < ?m" using assms(2) m by simp
  then have "\<lfloor>r * ?m\<rfloor> < hi - lo + 1" by (simp only: floor_less_iff)
  with lo show ?thesis by (simp add: getRandomInt_def)
qed

lemma validHazards_snoc:
  "validHazards (es @ [e]) \<longleftrightarrow>
     validHazards es \<and> startPosition e \<notin> startPosition ` set es \<and> directed e \<and> inside e"
  by (auto simp: validHazards_def)

lemma createSnake_Inr:
  "createSnake u h t es = Inr e \<Longrightarrow>
     startPosition e = h \<and> endPosition e = t \<and> kind e = Snake \<and> t < h
   \<and> h \<notin> startPosition ` set es"
  by (auto simp: createSnake_def validateSnake_def checkDuplicateStartPosition_def list_ex_iff
           split: if_splits)

lemma createLadder_Inr:
  "createLadder u b t es = Inr e \<Longrightarrow>
     startPosition e = b \<and> endPosition e = t \<and> kind e = Ladder \<and> b < t
   \<and> b \<notin> startPosition ` set es"
  by (auto simp: createLadder_def validateLadder_def checkDuplicateStartPosition_def list_ex_iff
           split: if_splits)

lemma snakeAttempts_valid:
  assumes rnd: "\<forall>k. 0 \<le> rnd k \<and> rnd k < 1" and d: "minDistance \<le> 97"
  shows "validHazards (elements g) \<Longrightarrow>
         validHazards (elements (snakeAttempts rnd uuids minDistance maxDistance n g))"
proof (induction n arbitrary: g)
  case 0
  then show ?case by simp
next
  case (Suc n)
  let ?head = "getRandomInt (rnd (draws g)) (MIN_POSITION + minDistance) MAX_POSITION"
  let ?g1 = "g\<lparr>draws := draws g + 1\<rparr>"
  let ?distance = "getRandomInt (rnd (draws ?g1)) minDistance (min maxDistance (?head - MIN_POSITION))"
  let ?g2 = "?g1\<lparr>draws := draws ?g1 + 1\<rparr>"
  let ?tail = "?head - ?distance"
  have v1: "validHazards (elements ?g1)" and v2: "validHazards (elements ?g2)"
    using Suc.prems by simp_all
  have hd: "?head \<le> 99"
    using getRandomInt_bounds[of "rnd (draws g)" "MIN_POSITION + minDistance" MAX_POSITION] rnd d
    by (simp add: MIN_POSITION_def MAX_POSITION_def)
  show ?case
  proof (cases "?head \<in> usedEndPositions ?g1")
    case True
    then show ?thesis using Suc.IH[OF v1] by (simp add: Let_def)
  next
    case False
    note nothead = this
    show ?thesis
    proof (cases "?tail < MIN_POSITION \<or> ?tail \<in> usedEndPositions ?g2")
      case True
      then show ?thesis using nothead Suc.IH[OF v2] by (simp add: Let_def)
    next
      case False
      note goodtail = this
      show ?thesis
      proof (cases "createSnake (uuids (length (elements ?g2))) ?head ?tail (elements ?g2)")
        case (Inl e)
        then show ?thesis using nothead goodtail Suc.IH[OF v2] by (simp add: Let_def)
      next
        case (Inr snake)
        from createSnake_Inr[OF Inr] have
          s: "startPosition snake = ?head" "endPosition snake = ?tail" "kind snake = Snake"
             "?tail < ?head" "?head \<notin> startPosition ` set (elements ?g2)" by simp_all
        from goodtail have t2: "2 \<le> ?tail" by (simp add: MIN_POSITION_def)
        have "directed snake" using s by (simp add: directed_def)
        moreover have "inside snake" using s t2 hd by (simp add: inside_def)
        ultimately have "validHazards (elements ?g2 @ [snake])"
          using v2 s by (simp add: validHazards_snoc)
        then show ?thesis using nothead goodtail Inr by (simp add: Let_def)
      qed
    qed
  qed
qed

lemma ladderAttempts_valid:
  assumes rnd: "\<forall>k. 0 \<le> rnd k \<and> rnd k < 1" and d: "minDistance \<le> 97"
  shows "validHazards (elements g) \<Longrightarrow>
         validHazards (elements (ladderAttempts rnd uuids minDistance maxDistance n g))"
proof (induction n arbitrary: g)
  case 0
  then show ?case by simp
next
  case (Suc n)
  let ?bottom = "getRandomInt (rnd (draws g)) MIN_POSITION (MAX_POSITION - minDistance)"
  let ?g1 = "g\<lparr>draws := draws g + 1\<rparr>"
  let ?distance = "getRandomInt (rnd (draws ?g1)) minDistance (min maxDistance (MAX_POSITION - ?bottom))"
  let ?g2 = "?g1\<lparr>draws := draws ?g1 + 1\<rparr>"
  let ?top = "?bottom + ?distance"
  have v1: "validHazards (elements ?g1)" and v2: "validHazards (elements ?g2)"
    using Suc.prems by simp_all
  have lo: "2 \<le> ?bottom"
    using getRandomInt_bounds[of "rnd (draws g)" MIN_POSITION "MAX_POSITION - minDistance"] rnd d
    by (simp add: MIN_POSITION_def MAX_POSITION_def)
  show ?case
  proof (cases "?bottom \<in> usedEndPositions ?g1")
    case True
    then show ?thesis using Suc.IH[OF v1] by (simp add: Let_def)
  next
    case False
    note notbottom = this
    show ?thesis
    proof (cases "?top > MAX_POSITION \<or> ?top \<in> usedEndPositions ?g2")
      case True
      then show ?thesis using notbottom Suc.IH[OF v2] by (simp add: Let_def)
    next
      case False
      note goodtop = this
      show ?thesis
      proof (cases "createLadder (uuids (length (elements ?g2))) ?bottom ?top (elements ?g2)")
        case (Inl e)
        then show ?thesis using notbottom goodtop Suc.IH[OF v2] by (simp add: Let_def)
      next
        case (Inr ladder)
        from createLadder_Inr[OF Inr] have
          s: "startPosition ladder = ?bottom" "endPosition ladder = ?top" "kind ladder = Ladder"
             "?bottom < ?top" "?bottom \<notin> startPosition ` set (elements ?g2)" by simp_all
        from goodtop have t2: "?top \<le> 99" by (simp add: MAX_POSITION_def)
        have "directed ladder" using s by (simp add: directed_def)
        moreover have "inside ladder" using s t2 lo by (simp add: inside_def)
        ultimately have "validHazards (elements ?g2 @ [ladder])"
          using v2 s by (simp add: validHazards_snoc)
        then show ?thesis using notbottom goodtop Inr by (simp add: Let_def)
      qed
    qed
  qed
qed

lemma funpow_valid:
  fixes f :: "generation \<Rightarrow> generation"
  assumes "\<And>g. validHazards (elements g) \<Longrightarrow> validHazards (elements (f g))"
    and "validHazards (elements g)"
  shows "validHazards (elements ((f ^^ n) g))"
  using assms by (induction n) auto

text \<open>
  For every count and maximum distance, every minimum distance up to 97 (the default 10
  among them) and every sequence of values of \<open>Math.random()\<close>, each in [0, 1), the
  generated list is valid: distinct start positions, snakes down and ladders up, every
  position in 2..99.
\<close>

lemma generateSnakesAndLadders_valid:
  assumes "\<forall>k. 0 \<le> rnd k \<and> rnd k < 1"
    and "(case minDistance_opt config of None \<Rightarrow> 10 | Some d \<Rightarrow> d) \<le> 97"
  shows "validHazards (generateSnakesAndLadders rnd uuids config)"
proof -
  let ?d = "case minDistance_opt config of None \<Rightarrow> 10 | Some d \<Rightarrow> d"
  let ?m = "case maxDistance_opt config of None \<Rightarrow> 40 | Some d \<Rightarrow> d"
  let ?g0 = "\<lparr> elements = [], usedEndPositions = {}, draws = 0 \<rparr>"
  have s: "validHazards (elements (snakeAttempts rnd uuids ?d ?m 100 g))"
    if "validHazards (elements g)" for g
    using that by (rule snakeAttempts_valid[OF assms])
  have l: "validHazards (elements (ladderAttempts rnd uuids ?d ?m 100 g))"
    if "validHazards (elements g)" for g
    using that by (rule ladderAttempts_valid[OF assms])
  have g0: "validHazards (elements ?g0)"
    by (simp add: validHazards_def)
  have g1: "validHazards (elements ((snakeAttempts rnd uuids ?d ?m 100 ^^ a) ?g0))" for a
    using s g0 by (rule funpow_valid)
  have "validHazards (elements ((ladderAttempts rnd uuids ?d ?m 100 ^^ b)
          ((snakeAttempts rnd uuids ?d ?m 100 ^^ a) ?g0)))" for a b
    using l g1 by (rule funpow_valid)
  then show ?thesis
    by (simp add: generateSnakesAndLadders_def Let_def)
qed

lemma generated_ladder_from_1:
  "generateSnakesAndLadders (\<lambda>k. 1 / 2) (\<lambda>k. ''h1'')
       \<lparr> count_opt = Some 1, minDistance_opt = Some 99, maxDistance_opt = None \<rparr>
     = [\<lparr> sid = ''h1'', kind = Ladder, startPosition = 1, endPosition = 71 \<rparr>]"
  by code_simp

lemma generated_snake_from_100:
  "generateSnakesAndLadders (\<lambda>k. 0) (\<lambda>k. ''h1'')
       \<lparr> count_opt = Some 2, minDistance_opt = Some 98, maxDistance_opt = None \<rparr>
     = [\<lparr> sid = ''h1'', kind = Snake, startPosition = 100, endPosition = 2 \<rparr>]"
  by code_simp

text \<open>
  Claim C9. The generated hazards are to have distinct start positions, snakes going down
  and ladders up, and no start or end on cell 1 or 100, for every configuration and every
  sequence of random draws. The generator keeps a snake's head below 100 and a ladder's
  bottom above 1 only through the range it asks \<open>getRandomInt\<close> for, and that range is
  empty once \<open>minDistance\<close> exceeds 97: \<open>getRandomInt(min, max)\<close> with \<open>max < min\<close>
  returns values outside it. With \<open>{count: 1, minDistance: 99}\<close> and draws of 0.5 the
  result is one ladder from cell 1 to 71; with \<open>{count: 2, minDistance: 98}\<close> and draws
  of 0 it is one snake from cell 100 to 2.
\<close>

theorem generateSnakesAndLadders_outside_board:
  "generateSnakesAndLadders (\<lambda>k. 1 / 2) (\<lambda>k. ''h1'')
       \<lparr> count_opt = Some 1, minDistance_opt = Some 99, maxDistance_opt = None \<rparr>
     = [\<lparr> sid = ''h1'', kind = Ladder, startPosition = 1, endPosition = 71 \<rparr>]
 \<and> \<not> validHazards [\<lparr> sid = ''h1'', kind = Ladder, startPosition = 1, endPosition = 71 \<rparr>]
 \<and> generateSnakesAndLadders (\<lambda>k. 0) (\<lambda>k. ''h1'')
       \<lparr> count_opt = Some 2, minDistance_opt = Some 98, maxDistance_opt = None \<rparr>
     = [\<lparr> sid = ''h1'', kind = Snake, startPosition = 100, endPosition = 2 \<rparr>]
 \<and> \<not> validHazards [\<lparr> sid = ''h1'', kind = Snake, startPosition = 100, endPosition = 2 \<rparr>]"
  using generated_ladder_from_1 generated_snake_from_100
  by (simp add: validHazards_def inside_def)


section \<open>Properties of the persistence codec\<close>

lemma player_round_trip:
  assumes "finishTime p \<noteq> Some InvalidDate"
    and "\<forall>d. finishTime p = Some d \<longrightarrow> roundTrips toISO newDate d"
  shows "\<exists>sp. serializePlayer toISO (js_of_Player p) = Inr sp
             \<and> deserializePlayer newDate sp = Inr (js_of_Player p)"
proof (cases "finishTime p")
  case None
  have "serializePlayer toISO (js_of_Player p) = Inr (js_of_Player p)"
    using None
    by (simp add: serializePlayer_def js_of_Player_def obj_def getProp_def spreadProps_def fun_eq_iff)
  moreover have "deserializePlayer newDate (js_of_Player p) = Inr (js_of_Player p)"
    using None
    by (cases "teamId p"; cases "teamColor p")
       (simp_all add: deserializePlayer_def js_of_Player_def obj_def getProp_def spreadProps_def
          fun_eq_iff orDefault_def nullish_def js_of_string_opt_def)
  ultimately show ?thesis by simp
next
  case (Some d)
  with assms obtain t where t: "d = Date t" "newDate (Str (toISO t)) = Date t" "toISO t \<noteq> []"
    by (cases d) (auto simp: roundTrips_def)
  let ?sp = "Obj ((spreadProps (js_of_Player p))(''finishTime'' := Str (toISO t)))"
  have "serializePlayer toISO (js_of_Player p) = Inr ?sp"
    using Some t
    by (simp add: serializePlayer_def js_of_Player_def obj_def getProp_def spreadProps_def
          toISOString_def)
  moreover have "deserializePlayer newDate ?sp = Inr (js_of_Player p)"
    using Some t
    by (cases "teamId p"; cases "teamColor p")
       (simp_all add: deserializePlayer_def js_of_Player_def obj_def getProp_def spreadProps_def
          fun_eq_iff orDefault_def nullish_def js_of_string_opt_def)
  ultimately show ?thesis by blast
qed

lemma players_round_trip:
  assumes "\<forall>p\<in>set ps. finishTime p \<noteq> Some InvalidDate"
    and "\<forall>p\<in>set ps. \<forall>d. finishTime p = Some d \<longrightarrow> roundTrips toISO newDate d"
  shows "\<exists>sps. mapE (serializePlayer toISO) (map js_of_Player ps) = Inr sps
             \<and> mapE (deserializePlayer newDate) sps = Inr (map js_of_Player ps)"
  using assms
proof (induction ps)
  case Nil
  then show ?case by simp
next
  case (Cons p ps)
  from Cons.prems player_round_trip[of p toISO newDate] obtain sp where
    sp: "serializePlayer toISO (js_of_Player p) = Inr sp"
        "deserializePlayer newDate sp = Inr (js_of_Player p)" by auto
  from Cons obtain sps where
    sps: "mapE (serializePlayer toISO) (map js_of_Player ps) = Inr sps"
         "mapE (deserializePlayer newDate) sps = Inr (map js_of_Player ps)" by auto
  from sp sps show ?case by simp
qed

lemma roundTrips_Date:
  "roundTrips toISO newDate (Date t) \<Longrightarrow> newDate (Str (toISO t)) = Date t"
  by (simp add: roundTrips_def)

text \<open>
  Claim C7. Let \<open>x\<close> be a game state whose dates are all valid, on a runtime whose
  \<open>new Date(text)\<close> reads back the text that \<open>toISOString\<close> writes for each date of
  \<open>x\<close>. The state is a typed one: its pending dice value is a number or \<open>null\<close>, as
  in every state the store builds (an absent one would be read back as \<open>null\<close>). Then \<open>serializeState\<close> succeeds on \<open>x\<close> with a record \<open>y\<close> that holds
  \<open>createdAt\<close> and \<open>lastUpdatedAt\<close> as those texts; \<open>deserializeState\<close> succeeds on \<open>y\<close>
  and returns \<open>x\<close>, equal field by field, with \<open>createdAt\<close>, \<open>lastUpdatedAt\<close> and every
  player's \<open>finishTime\<close> as the same dates; and serializing what \<open>deserializeState\<close>
  returned gives \<open>y\<close> again.
\<close>

theorem codec_round_trip:
  assumes "validDates x"
    and "\<forall>d\<in>set (stateDates x). roundTrips toISO newDate d"
  shows "\<exists>y. serializeState toISO (js_of_GameState x) = Inr y
           \<and> deserializeState newDate y = Inr (js_of_GameState x)
           \<and> (\<forall>c. createdAt x = Date c \<longrightarrow> optProp y ''createdAt'' = Str (toISO c))
           \<and> (\<forall>u. lastUpdatedAt x = Date u \<longrightarrow> optProp y ''lastUpdatedAt'' = Str (toISO u))
           \<and> (case deserializeState newDate y of
                 Inr x' \<Rightarrow> serializeState toISO x' = Inr y
               | Inl e \<Rightarrow> False)"
proof -
  from assms(1) obtain c u where cu: "createdAt x = Date c" "lastUpdatedAt x = Date u"
    by (cases "createdAt x"; cases "lastUpdatedAt x") (auto simp: validDates_def)
  from assms(2) cu have rc: "newDate (Str (toISO c)) = Date c"
    and ru: "newDate (Str (toISO u)) = Date u"
    by (auto simp: stateDates_def intro: roundTrips_Date)
  have v: "\<forall>p\<in>set (players x). finishTime p \<noteq> Some InvalidDate"
    using assms(1) by (simp add: validDates_def)
  have r: "\<forall>p\<in>set (players x). \<forall>d. finishTime p = Some d \<longrightarrow> roundTrips toISO newDate d"
    using assms(2) by (force simp: stateDates_def)
  from players_round_trip[OF v r] obtain sps where
    sps: "mapE (serializePlayer toISO) (map js_of_Player (players x)) = Inr sps"
         "mapE (deserializePlayer newDate) sps = Inr (map js_of_Player (players x))" by blast
  let ?y = "Obj ((spreadProps (js_of_GameState x))
                 (''createdAt'' := Str (toISO c),
                  ''lastUpdatedAt'' := Str (toISO u),
                  ''players'' := Arr sps))"
  have ser: "serializeState toISO (js_of_GameState x) = Inr ?y"
    using cu sps(1)
    by (simp add: serializeState_def js_of_GameState_def obj_def getProp_def spreadProps_def
          toISOString_def mapArray_def)
  have de: "deserializeState newDate ?y = Inr (js_of_GameState x)"
    using cu sps(2) rc ru
    by (cases "pendingMaxPoints (diceConfig x)")
       (simp_all add: deserializeState_def js_of_GameState_def obj_def getProp_def spreadProps_def
          mapArray_def fun_eq_iff orDefault_def nullish_def optProp_def
          js_of_DiceConfiguration_def js_of_int_null_def)
  have "optProp ?y ''createdAt'' = Str (toISO c)" "optProp ?y ''lastUpdatedAt'' = Str (toISO u)"
    by (simp_all add: optProp_def)
  with ser de cu show ?thesis by simp
qed

theorem codec_round_trip_witness:
  "validDates binhFinishedState
 \<and> list_all (roundTrips exampleToISO exampleNewDate) (stateDates binhFinishedState)
 \<and> stateDates binhFinishedState = [Date 0, Date 3000, Date 1000]
 \<and> (\<exists>y. serializeState exampleToISO (js_of_GameState binhFinishedState) = Inr y
        \<and> deserializeState exampleNewDate y = Inr (js_of_GameState binhFinishedState)
        \<and> optProp y ''createdAt'' = Str ''1970-01-01T00:00:00.000Z''
        \<and> optProp y ''lastUpdatedAt'' = Str ''1970-01-01T00:00:03.000Z'')"
proof -
  have v: "validDates binhFinishedState"
    by (simp add: validDates_def binhFinishedState_def exampleState_def
          playerAn_def playerBinh_def playerChi_def)
  have ds: "stateDates binhFinishedState = [Date 0, Date 3000, Date 1000]"
    by (simp add: stateDates_def binhFinishedState_def exampleState_def
          playerAn_def playerBinh_def playerChi_def)
  have r: "\<forall>d\<in>set (stateDates binhFinishedState). roundTrips exampleToISO exampleNewDate d"
    by (simp add: ds roundTrips_def exampleToISO_def exampleNewDate_def)
  have c: "createdAt binhFinishedState = Date 0" "lastUpdatedAt binhFinishedState = Date 3000"
    by (simp_all add: binhFinishedState_def exampleState_def)
  from codec_round_trip[OF v r] obtain y where
    y: "serializeState exampleToISO (js_of_GameState binhFinishedState) = Inr y"
       "deserializeState exampleNewDate y = Inr (js_of_GameState binhFinishedState)"
       "\<forall>c. createdAt binhFinishedState = Date c \<longrightarrow> optProp y ''createdAt'' = Str (exampleToISO c)"
       "\<forall>u. lastUpdatedAt binhFinishedState = Date u
            \<longrightarrow> optProp y ''lastUpdatedAt'' = Str (exampleToISO u)"
    by blast
  from y(3,4) c have "optProp y ''createdAt'' = Str ''1970-01-01T00:00:00.000Z''"
    "optProp y ''lastUpdatedAt'' = Str ''1970-01-01T00:00:03.000Z''"
    by (simp_all add: exampleToISO_def)
  with v ds r y(1,2) show ?thesis
    by (auto simp: list_all_iff)
qed

subsection \<open>Loading\<close>

lemma deserialize_no_players_array:
  assumes "\<forall>xs. optProp parsed ''players'' \<noteq> Arr xs"
  shows "deserializeState newDate parsed = Inl (Thrown TypeError)"
proof (cases parsed)
  case (Obj f)
  with assms have "\<forall>xs. f ''players'' \<noteq> Arr xs" by (simp add: optProp_def)
  then have "mapArray (deserializePlayer newDate) (f ''players'') = Inl (Thrown TypeError)"
    by (cases "f ''players''") (simp_all add: mapArray_def)
  with Obj show ?thesis by (simp add: deserializeState_def getProp_def)
qed (simp_all add: deserializeState_def getProp_def mapArray_def)

text \<open>
  A stored record that parses but has no \<open>players\<close> array: \<open>deserializeState\<close> throws a
  TypeError, and \<open>loadGameState\<close> clears both keys and throws the corrupted-state error.
\<close>

lemma load_without_players_array:
  assumes "dl_game_state ls = Some savedState" "savedState \<noteq> []"
    and "parseJSON savedState = Some parsed"
    and "\<forall>xs. optProp parsed ''players'' \<noteq> Arr xs"
  shows "loadGameState parseJSON newDate True ls
           = (Inl (CorruptedStateErrorFrom TypeError),
              ls\<lparr>dl_game_state := None, dl_game_version := None\<rparr>)"
  using assms(1-3) deserialize_no_players_array[OF assms(4), of newDate]
  by (simp add: loadGameState_def clearGameState_def)

text \<open>
  A stored record that \<open>validateState\<close> refuses: \<open>loadGameState\<close> rethrows the error and
  the storage is as before.
\<close>

lemma load_refused_by_validateState:
  assumes "dl_game_state ls = Some savedState" "savedState \<noteq> []"
    and "parseJSON savedState = Some parsed"
    and "deserializeState newDate parsed = Inr d"
    and "validateState d = Inl (CorruptedStateError reason)"
  shows "loadGameState parseJSON newDate True ls = (Inl (CorruptedStateError reason), ls)"
  using assms by (simp add: loadGameState_def)

text \<open>
  Claim C8. A stored record that parses but fails the structural validation is to raise
  the corrupted-state error and to be cleared from storage. The record without a
  \<open>players\<close> array is: \<open>deserializeState\<close> throws on it, and the \<open>catch\<close> block clears
  the storage before it throws \<open>CorruptedStateError\<close>. A record that \<open>validateState\<close>
  itself refuses is not cleared: the \<open>catch\<close> block rethrows a \<open>CorruptedStateError\<close>
  at once, before the line that clears. Here the stored record has every required field
  but \<open>gameId\<close>: the error is raised and both keys are still in the storage.
\<close>

theorem loadGameState_keeps_invalid_record:
  "loadGameState exampleParseJSON newDate True (exampleStorage storedWithoutGameId)
     = (Inl (CorruptedStateError ''Missing or invalid gameId''), exampleStorage storedWithoutGameId)
 \<and> dl_game_state (exampleStorage storedWithoutGameId) = Some storedWithoutGameId
 \<and> loadGameState exampleParseJSON newDate True (exampleStorage storedWithoutPlayers)
     = (Inl (CorruptedStateErrorFrom TypeError),
        \<lparr> dl_game_state = None, dl_game_version = None \<rparr>)"
proof -
  have "\<exists>d. deserializeState newDate parsedWithoutGameId = Inr d
           \<and> optProp d ''gameId'' = Undefined"
    by (simp add: deserializeState_def parsedWithoutGameId_def obj_def getProp_def mapArray_def
          spreadProps_def optProp_def)
  then obtain d where d: "deserializeState newDate parsedWithoutGameId = Inr d"
     "optProp d ''gameId'' = Undefined" by blast
  then have "validateState d = Inl (CorruptedStateError ''Missing or invalid gameId'')"
    by (cases d) (auto simp: deserializeState_def validateState_def getProp_def optProp_def
          split: sum.splits)
  with d have a: "loadGameState exampleParseJSON newDate True (exampleStorage storedWithoutGameId)
     = (Inl (CorruptedStateError ''Missing or invalid gameId''), exampleStorage storedWithoutGameId)"
    by (simp add: loadGameState_def exampleStorage_def exampleParseJSON_def
          storedWithoutGameId_def)
  have "deserializeState newDate parsedWithoutPlayers = Inl (Thrown TypeError)"
    by (simp add: deserializeState_def parsedWithoutPlayers_def obj_def getProp_def mapArray_def)
  then have b: "loadGameState exampleParseJSON newDate True (exampleStorage storedWithoutPlayers)
     = (Inl (CorruptedStateErrorFrom TypeError),
        \<lparr> dl_game_state = None, dl_game_version = None \<rparr>)"
    by (simp add: loadGameState_def exampleStorage_def exampleParseJSON_def
          storedWithoutGameId_def storedWithoutPlayers_def clearGameState_def)
  from a b show ?thesis by (simp add: exampleStorage_def)
qed

end
